theory Spec2Isabelle
  imports Complex_Main
begin

section \<open>Arrays\<close>

text \<open>
  The arrays of the source are numpy arrays of floats.  They are modelled as nested lists
  of reals: a vector, a matrix (a list of rows) and a rank-3 tensor (a list of matrices).
  Rounding is not modelled: every operation is the exact real one.  A nested list does
  not record the lengths of the axes behind an axis of length 0; such arrays are read
  with these lengths 0.
\<close>

type_synonym vec = "real list"
type_synonym mat = "real list list"
type_synonym tensor3 = "real list list list"

datatype error =
  TypeError | ValueError | IndexError | LinAlgError | NotImplementedError
  | ZeroDivisionError

definition is_mat :: "nat \<Rightarrow> nat \<Rightarrow> 'a list list \<Rightarrow> bool" where
  "is_mat r c M \<longleftrightarrow> length M = r \<and> list_all (\<lambda>row. length row = c) M"

definition is_tensor3 :: "nat \<Rightarrow> nat \<Rightarrow> nat \<Rightarrow> 'a list list list \<Rightarrow> bool" where
  "is_tensor3 b r c T \<longleftrightarrow> length T = b \<and> list_all (is_mat r c) T"

definition ncols :: "'a list list \<Rightarrow> nat" where
  "ncols M = (case M of [] \<Rightarrow> 0 | row # _ \<Rightarrow> length row)"

text \<open>\<open>A.shape\<close> of a rank-2 and of a rank-3 array.\<close>

definition shape2 :: "'a list list \<Rightarrow> nat \<times> nat" where
  "shape2 M = (length M, ncols M)"

definition shape3 :: "'a list list list \<Rightarrow> nat \<times> nat \<times> nat" where
  "shape3 T = (length T, ncols T, (case T of [] \<Rightarrow> 0 | M # _ \<Rightarrow> ncols M))"

definition dot :: "vec \<Rightarrow> vec \<Rightarrow> real" where
  "dot u v = sum_list (map2 (*) u v)"

definition col :: "nat \<Rightarrow> mat \<Rightarrow> vec" where
  "col j M = map (\<lambda>row. row ! j) M"

text \<open>\<open>v @ M\<close> for a vector \<open>v\<close> of length \<open>n\<close> and an \<open>n \<times> m\<close> matrix \<open>M\<close>.\<close>

definition row_times :: "vec \<Rightarrow> mat \<Rightarrow> vec" where
  "row_times v M = map (\<lambda>j. dot v (col j M)) [0..<ncols M]"

definition mat_mul :: "mat \<Rightarrow> mat \<Rightarrow> mat" where
  "mat_mul A B = map (\<lambda>row. row_times row B) A"

text \<open>\<open>A @ v\<close> for a matrix \<open>A\<close> and a vector \<open>v\<close>.\<close>

definition mat_vec :: "mat \<Rightarrow> vec \<Rightarrow> vec" where
  "mat_vec A v = map (\<lambda>row. dot row v) A"

definition eye :: "nat \<Rightarrow> mat" where
  "eye n = map (\<lambda>i. map (\<lambda>j. if i = j then 1 else 0) [0..<n]) [0..<n]"

definition smult :: "real \<Rightarrow> mat \<Rightarrow> mat" where
  "smult c M = map (map ((*) c)) M"

definition mat_add :: "mat \<Rightarrow> mat \<Rightarrow> mat" where
  "mat_add A B = map2 (map2 (+)) A B"

text \<open>
  A list comprehension whose elements may raise: the elements are evaluated in order and
  the first exception ends the evaluation.
\<close>

fun collect :: "(error + 'a) list \<Rightarrow> error + 'a list" where
  "collect [] = Inr []"
| "collect (Inl e # _) = Inl e"
| "collect (Inr x # rest) = (case collect rest of Inl e \<Rightarrow> Inl e | Inr xs \<Rightarrow> Inr (x # xs))"

section \<open>The linear solver\<close>

text \<open>
  \<open>np.linalg.solve\<close> belongs to numpy, not to the repository.  The engine is a function
  of the solver it is given: \<open>slv A B\<close> is \<open>Some X\<close> when the solver returns, and \<open>None\<close>
  when it raises \<open>LinAlgError\<close>.  What the engine relies on is that a returned \<open>X\<close> has the
  shape of \<open>B\<close> and solves \<open>A X = B\<close>.
\<close>

type_synonym solver = "mat \<Rightarrow> mat \<Rightarrow> mat option"

definition solve_contract :: "solver \<Rightarrow> bool" where
  "solve_contract slv \<longleftrightarrow>
     (\<forall>A B X. slv A B = Some X \<longrightarrow> is_mat (length B) (ncols B) X \<and> mat_mul A X = B)"

text \<open>\<open>np.linalg.solve(A, b)\<close> with a vector \<open>b\<close>: \<open>b\<close> is one column, and so is the result.\<close>

definition solve_vec :: "solver \<Rightarrow> mat \<Rightarrow> vec \<Rightarrow> vec option" where
  "solve_vec slv A b = map_option (col 0) (slv A (map (\<lambda>v. [v]) b))"

subsection \<open>A solver to run the engine with\<close>

text \<open>
  Gauss-Jordan elimination on the rows of \<open>A\<close> extended by the rows of \<open>B\<close>: for every
  column in turn, the first row at or below the diagonal with a non-zero entry is swapped
  into place and scaled, and the column is cleared in every other row.  No such row means
  that \<open>A\<close> is singular.  The result is returned once it is checked against \<open>A X = B\<close>.
\<close>

definition find_pivot :: "nat \<Rightarrow> mat \<Rightarrow> nat option" where
  "find_pivot c M = find (\<lambda>i. M ! i ! c \<noteq> 0) [c..<length M]"

definition swap_rows :: "nat \<Rightarrow> nat \<Rightarrow> mat \<Rightarrow> mat" where
  "swap_rows i j M = M[i := M ! j, j := M ! i]"

definition eliminate :: "nat \<Rightarrow> mat \<Rightarrow> mat" where
  "eliminate c M =
     (let p = map (\<lambda>v. v / (M ! c ! c)) (M ! c)
      in map (\<lambda>(i, row). if i = c then p else map2 (\<lambda>a b. a - (row ! c) * b) row p)
           (enumerate 0 M))"

fun gauss_jordan :: "nat \<Rightarrow> nat \<Rightarrow> mat \<Rightarrow> mat option" where
  "gauss_jordan 0 c M = Some M"
| "gauss_jordan (Suc k) c M =
     (case find_pivot c M of
        None \<Rightarrow> None
      | Some p \<Rightarrow> gauss_jordan k (Suc c) (eliminate c (swap_rows c p M)))"

definition lin_solve :: solver where
  "lin_solve A B =
     (let n = length A in
      if \<not> (is_mat n n A \<and> is_mat n (ncols B) B) then None
      else (case gauss_jordan n 0 (map2 (@) A B) of
              None \<Rightarrow> None
            | Some M \<Rightarrow>
                (let X = map (drop n) M
                 in if is_mat n (ncols B) X \<and> mat_mul A X = B then Some X else None)))"

section \<open>Hyperparameters and the single-model engine\<close>

text \<open>
  Modelled from the spec: the class \<open>Hyperparameter\<close> of \<open>MuyGPyS.gp.kernels\<close> is not
  among the sources.  A hyperparameter is a value with either a pair of bounds or the
  mark \<open>"fixed"\<close>; calling it gives the value, \<open>get_bounds\<close> the bounds, \<open>fixed\<close> tells
  whether the mark is set, and \<open>_set_val\<close> replaces the value.
\<close>

datatype hp_bounds = Fixed | Interval real real

record hyperparameter =
  val :: real
  bounds :: hp_bounds

definition get_bounds :: "hyperparameter \<Rightarrow> hp_bounds" where
  "get_bounds h = bounds h"

definition fixed :: "hyperparameter \<Rightarrow> bool" where
  "fixed h \<longleftrightarrow> bounds h = Fixed"

definition set_val :: "real \<Rightarrow> hyperparameter \<Rightarrow> hyperparameter" where
  "set_val v h = h\<lparr>val := v\<rparr>"

text \<open>
  The engine \<open>MuyGPS\<close>: the kernel functor (a map from a distance to a covariance,
  applied to every entry of a tensor) with its named hyperparameters, the noise \<open>eps\<close>
  and the scale parameters \<open>sigma_sq\<close>, one for every response dimension.
\<close>

record MuyGPS =
  kernel :: "real \<Rightarrow> real"
  hyperparameters :: "string \<rightharpoonup> hyperparameter"
  eps :: hyperparameter
  sigma_sq :: "hyperparameter list"

definition kernel2 :: "MuyGPS \<Rightarrow> mat \<Rightarrow> mat" where
  "kernel2 self D = map (map (kernel self)) D"

definition kernel3 :: "MuyGPS \<Rightarrow> tensor3 \<Rightarrow> tensor3" where
  "kernel3 self D = map (map (map (kernel self))) D"

text \<open>\<open>K + self.eps() * np.eye(nn_count)\<close> for one matrix of the batch.\<close>

definition add_nugget :: "MuyGPS \<Rightarrow> nat \<Rightarrow> mat \<Rightarrow> mat" where
  "add_nugget self nn_count Ki = mat_add Ki (smult (val (eps self)) (eye nn_count))"

text \<open>
  \<open>MuyGPS._compute_solve\<close>.  The arrays must have the shapes of the docstring:
  \<open>(batch_size, nn_count, nn_count)\<close> for \<open>K\<close> and \<open>(batch_size, nn_count)\<close> for \<open>Kcross\<close>,
  where \<open>(batch_size, nn_count, response_count)\<close> is the shape of \<open>batch_targets\<close>; for
  every other shape the model gives \<open>ValueError\<close> (the broadcasting of axes of length 1
  by numpy is not modelled).  The batched solve raises as soon as one system does.
\<close>

definition compute_solve :: "solver \<Rightarrow> MuyGPS \<Rightarrow> tensor3 \<Rightarrow> mat \<Rightarrow> tensor3 \<Rightarrow> error + mat" where
  "compute_solve slv self K Kcross batch_targets =
     (case shape3 batch_targets of (batch_size, nn_count, response_count) \<Rightarrow>
        if \<not> (is_tensor3 batch_size nn_count response_count batch_targets
               \<and> is_tensor3 batch_size nn_count nn_count K
               \<and> is_mat batch_size nn_count Kcross)
        then Inl ValueError
        else (case those (map2 (\<lambda>Ki Ti. slv (add_nugget self nn_count Ki) Ti) K batch_targets) of
                None \<Rightarrow> Inl LinAlgError
              | Some X \<Rightarrow> Inr (map2 row_times Kcross X)))"

text \<open>
  \<open>MuyGPS._compute_diagonal_variance\<close>: one solve for every batch element, in order.
  \<open>K[i, :, :]\<close> raises \<open>IndexError\<close> when \<open>K\<close> has no matrix \<open>i\<close>, and the sum with the
  nugget raises \<open>ValueError\<close> when that matrix is not \<open>nn_count \<times> nn_count\<close>.
\<close>

definition variance_at :: "solver \<Rightarrow> MuyGPS \<Rightarrow> nat \<Rightarrow> tensor3 \<Rightarrow> mat \<Rightarrow> nat \<Rightarrow> error + real" where
  "variance_at slv self nn_count K Kcross i =
     (if length K \<le> i then Inl IndexError
      else if \<not> is_mat nn_count nn_count (K ! i) then Inl ValueError
      else (case solve_vec slv (add_nugget self nn_count (K ! i)) (Kcross ! i) of
              None \<Rightarrow> Inl LinAlgError
            | Some x \<Rightarrow> Inr (1 - dot (Kcross ! i) x)))"

definition compute_diagonal_variance :: "solver \<Rightarrow> MuyGPS \<Rightarrow> tensor3 \<Rightarrow> mat \<Rightarrow> error + vec" where
  "compute_diagonal_variance slv self K Kcross =
     (case shape2 Kcross of (batch_size, nn_count) \<Rightarrow>
        if \<not> is_mat batch_size nn_count Kcross then Inl ValueError
        else collect (map (variance_at slv self nn_count K Kcross) [0..<batch_size]))"

text \<open>
  The engine of the end-to-end scenario: noise \<open>1e-5\<close>, and a kernel that is 1 at
  distance 0 and 0 elsewhere.
\<close>

definition scenario_engine :: MuyGPS where
  "scenario_engine =
     \<lparr>kernel = (\<lambda>d. if d = 0 then 1 else 0), hyperparameters = Map.empty,
      eps = \<lparr>val = 1 / 100000, bounds = Fixed\<rparr>, sigma_sq = [\<lparr>val = 1, bounds = Fixed\<rparr>]\<rparr>"

text \<open>
  The result of a regression: the responses alone, or the responses with the variances.
\<close>

datatype 'v regress_out = Responses mat | WithVariance mat 'v

text \<open>
  \<open>MuyGPS.regress\<close>.  The responses are computed first; \<open>variance_mode\<close> is looked at
  afterwards (\<open>None\<close> is Python's \<open>None\<close>).
\<close>

definition regress ::
  "solver \<Rightarrow> MuyGPS \<Rightarrow> tensor3 \<Rightarrow> mat \<Rightarrow> tensor3 \<Rightarrow> string option \<Rightarrow> error + vec regress_out" where
  "regress slv self K Kcross batch_targets variance_mode =
     (case compute_solve slv self K Kcross batch_targets of
        Inl e \<Rightarrow> Inl e
      | Inr responses \<Rightarrow>
          if variance_mode = None then Inr (Responses responses)
          else if variance_mode = Some ''diagonal'' then
            (case compute_diagonal_variance slv self K Kcross of
               Inl e \<Rightarrow> Inl e
             | Inr diagonal_variance \<Rightarrow> Inr (WithVariance responses diagonal_variance))
          else Inl NotImplementedError)"

text \<open>
  \<open>a[idx]\<close> for a vector \<open>a\<close> and an array of integer indices: an index from \<open>-n\<close> to
  \<open>-1\<close> counts from the end, an index outside \<open>-n .. n - 1\<close> raises \<open>IndexError\<close>.
\<close>

definition index_at :: "'a list \<Rightarrow> int \<Rightarrow> error + 'a" where
  "index_at a i =
     (let n = int (length a); j = (if i < 0 then n + i else i)
      in if 0 \<le> j \<and> j < n then Inr (a ! nat j) else Inl IndexError)"

definition take_indices :: "'a list \<Rightarrow> int list \<Rightarrow> error + 'a list" where
  "take_indices a idx = collect (map (index_at a) idx)"

text \<open>
  One element of the generator \<open>MuyGPS._get_sigma_sq\<close>: the neighbourhood targets
  \<open>Y_0\<close>, then \<open>Y_0 @ solve(K[j] + eps I, Y_0)\<close>.
\<close>

definition sigma_sq_term ::
  "solver \<Rightarrow> MuyGPS \<Rightarrow> nat \<Rightarrow> tensor3 \<Rightarrow> vec \<Rightarrow> int list list \<Rightarrow> nat \<Rightarrow> error + real" where
  "sigma_sq_term slv self nn_count K target_col nn_indices j =
     (case take_indices target_col (nn_indices ! j) of
        Inl e \<Rightarrow> Inl e
      | Inr Y_0 \<Rightarrow>
          if length K \<le> j then Inl IndexError
          else if \<not> is_mat nn_count nn_count (K ! j) then Inl ValueError
          else (case solve_vec slv (add_nugget self nn_count (K ! j)) Y_0 of
                  None \<Rightarrow> Inl LinAlgError
                | Some x \<Rightarrow> Inr (dot Y_0 x)))"

definition get_sigma_sq ::
  "solver \<Rightarrow> MuyGPS \<Rightarrow> tensor3 \<Rightarrow> vec \<Rightarrow> int list list \<Rightarrow> error + real list" where
  "get_sigma_sq slv self K target_col nn_indices =
     (case shape2 nn_indices of (batch_size, nn_count) \<Rightarrow>
        collect (map (sigma_sq_term slv self nn_count K target_col nn_indices) [0..<batch_size]))"

text \<open>
  One round of the loop of \<open>MuyGPS.sigma_sq_optim\<close>: \<open>self.sigma_sq[i]\<close> is looked up
  first, then the generator is summed and the sum divided.  The quotient by
  \<open>nn_count * batch_size = 0\<close> is reported as \<open>ZeroDivisionError\<close> (with an empty batch
  Python divides the integer 0 by 0; with \<open>nn_count = 0\<close> numpy would give \<open>nan\<close>, which
  the reals do not have).
\<close>

definition sigma_sq_step ::
  "solver \<Rightarrow> tensor3 \<Rightarrow> int list list \<Rightarrow> mat \<Rightarrow> MuyGPS \<Rightarrow> nat \<Rightarrow> error + MuyGPS" where
  "sigma_sq_step slv K nn_indices targets self i =
     (case shape2 nn_indices of (batch_size, nn_count) \<Rightarrow>
        if length (sigma_sq self) \<le> i then Inl IndexError
        else (case get_sigma_sq slv self K (col i targets) nn_indices of
                Inl e \<Rightarrow> Inl e
              | Inr terms \<Rightarrow>
                  if nn_count * batch_size = 0 then Inl ZeroDivisionError
                  else Inr (self\<lparr>sigma_sq := (sigma_sq self)
                         [i := set_val (sum_list terms / real (nn_count * batch_size))
                                 (sigma_sq self ! i)]\<rparr>)))"

fun sigma_sq_loop ::
  "(MuyGPS \<Rightarrow> nat \<Rightarrow> error + MuyGPS) \<Rightarrow> MuyGPS \<Rightarrow> nat list \<Rightarrow> error + MuyGPS" where
  "sigma_sq_loop step self [] = Inr self"
| "sigma_sq_loop step self (i # rest) =
     (case step self i of Inl e \<Rightarrow> Inl e | Inr self' \<Rightarrow> sigma_sq_loop step self' rest)"

text \<open>
  \<open>MuyGPS.sigma_sq_optim\<close>.  The function has no \<open>return\<close> statement: what it returns
  is Python's \<open>None\<close>, here the first component \<open>None\<close> of the result; the second
  component is the engine after the call.  The arrays \<open>nn_indices\<close> and \<open>targets\<close> must
  be rectangular (the model gives \<open>ValueError\<close> for a nested list that is no array).
  An exception leaves the engine with the scale parameters set so far; the model keeps
  the exception only.
\<close>

definition sigma_sq_optim ::
  "solver \<Rightarrow> MuyGPS \<Rightarrow> tensor3 \<Rightarrow> int list list \<Rightarrow> mat \<Rightarrow> error + (vec option \<times> MuyGPS)" where
  "sigma_sq_optim slv self K nn_indices targets =
     (case shape2 nn_indices of (batch_size, nn_count) \<Rightarrow>
      case shape2 targets of (train_count, response_count) \<Rightarrow>
        if \<not> (is_mat batch_size nn_count nn_indices \<and> is_mat train_count response_count targets)
        then Inl ValueError
        else (case sigma_sq_loop (sigma_sq_step slv K nn_indices targets) self [0..<response_count] of
                Inl e \<Rightarrow> Inl e
              | Inr self' \<Rightarrow> Inr (None, self')))"

text \<open>
  \<open>MuyGPS.get_optim_params\<close>: the kernel hyperparameters whose bounds are not
  \<open>"fixed"\<close>, and \<open>eps\<close> under the key \<open>"eps"\<close> when its bounds are not \<open>"fixed"\<close>.
\<close>

definition get_optim_params :: "MuyGPS \<Rightarrow> (string \<rightharpoonup> hyperparameter)" where
  "get_optim_params self =
     (let optim_params =
        (\<lambda>p. case hyperparameters self p of
                None \<Rightarrow> None
              | Some h \<Rightarrow> if get_bounds h \<noteq> Fixed then Some h else None)
      in if get_bounds (eps self) \<noteq> Fixed then optim_params(''eps'' \<mapsto> eps self)
         else optim_params)"

text \<open>
  \<open>BenchmarkGP\<close> of the test support and its \<open>get_optim_params\<close>, which asks
  \<open>fixed()\<close> instead of comparing the bounds.
\<close>

record BenchmarkGP =
  bench_hyperparameters :: "string \<rightharpoonup> hyperparameter"
  bench_eps :: hyperparameter

definition bench_get_optim_params :: "BenchmarkGP \<Rightarrow> (string \<rightharpoonup> hyperparameter)" where
  "bench_get_optim_params self =
     (let optim_params =
        (\<lambda>p. case bench_hyperparameters self p of
                None \<Rightarrow> None
              | Some h \<Rightarrow> if \<not> fixed h then Some h else None)
      in if \<not> fixed (bench_eps self) then optim_params(''eps'' \<mapsto> bench_eps self)
         else optim_params)"

text \<open>
  Modelled from the spec: the ways in which a hyperparameter of an engine is changed
  are not among the sources (they belong to the class \<open>Hyperparameter\<close> and to the
  optimisers).  A mutation replaces one hyperparameter of the engine, value and bounds:
  a kernel hyperparameter by its name, the noise \<open>eps\<close>, or one scale parameter.
\<close>

datatype mutation =
  SetKernelParam string hyperparameter | SetEps hyperparameter | SetSigmaSq nat hyperparameter

fun mutate :: "MuyGPS \<Rightarrow> mutation \<Rightarrow> MuyGPS" where
  "mutate self (SetKernelParam p h) =
     (if p \<in> dom (hyperparameters self)
      then self\<lparr>hyperparameters := (hyperparameters self)(p \<mapsto> h)\<rparr> else self)"
| "mutate self (SetEps h) = self\<lparr>eps := h\<rparr>"
| "mutate self (SetSigmaSq i h) = self\<lparr>sigma_sq := (sigma_sq self)[i := h]\<rparr>"

fun bench_mutate :: "BenchmarkGP \<Rightarrow> mutation \<Rightarrow> BenchmarkGP" where
  "bench_mutate self (SetKernelParam p h) =
     (if p \<in> dom (bench_hyperparameters self)
      then self\<lparr>bench_hyperparameters := (bench_hyperparameters self)(p \<mapsto> h)\<rparr> else self)"
| "bench_mutate self (SetEps h) = self\<lparr>bench_eps := h\<rparr>"
| "bench_mutate self (SetSigmaSq i h) = self"

text \<open>The hyperparameter that a mutation replaces.\<close>

datatype hp_ref = KernelParam string | Eps | SigmaSq nat

fun target :: "mutation \<Rightarrow> hp_ref" where
  "target (SetKernelParam p h) = KernelParam p"
| "target (SetEps h) = Eps"
| "target (SetSigmaSq i h) = SigmaSq i"

text \<open>
  An engine with the fixed kernel hyperparameter \<open>nu\<close>, the free kernel hyperparameter
  \<open>length_scale\<close> and a free \<open>eps\<close>, and the same for the benchmark.
\<close>

definition example_hyperparameters :: "string \<rightharpoonup> hyperparameter" where
  "example_hyperparameters =
     [''nu'' \<mapsto> \<lparr>val = 1 / 2, bounds = Fixed\<rparr>,
      ''length_scale'' \<mapsto> \<lparr>val = 7, bounds = Interval 1 10\<rparr>]"

definition example_engine :: MuyGPS where
  "example_engine =
     \<lparr>kernel = (\<lambda>d. if d = 0 then 1 else 0), hyperparameters = example_hyperparameters,
      eps = \<lparr>val = 1 / 100000, bounds = Interval 0 1\<rparr>,
      sigma_sq = [\<lparr>val = 1, bounds = Fixed\<rparr>]\<rparr>"

definition example_benchmark :: BenchmarkGP where
  "example_benchmark =
     \<lparr>bench_hyperparameters = example_hyperparameters,
      bench_eps = \<lparr>val = 1 / 100000, bounds = Interval 0 1\<rparr>\<rparr>"

section \<open>The multivariate engine\<close>

text \<open>
  Modelled from the spec: the class \<open>SigmaSq\<close> of \<open>MuyGPyS.gp.kernels\<close> is not among the
  sources.  The shared scale vector holds one value for every response dimension and the
  mark \<open>trained\<close>; calling it gives the values.
\<close>

record SigmaSq =
  ss_val :: vec
  trained :: bool

record MultivariateMuyGPS =
  models :: "MuyGPS list"
  metric :: string
  mm_sigma_sq :: SigmaSq

text \<open>
  A method call with positional arguments.  Python binds the arguments to the parameters
  of the \<open>def\<close> and raises \<open>TypeError\<close> when there are more or fewer of them than
  parameters.  \<open>MuyGPS._compute_solve\<close> has the parameters \<open>K\<close>, \<open>Kcross\<close> and
  \<open>batch_targets\<close> after \<open>self\<close>, and \<open>MuyGPS._compute_diagonal_variance\<close> has \<open>K\<close> and
  \<open>Kcross\<close>.  (Arguments of other kinds in the right number are no arrays of the ranks
  that the bodies expect; no call of the model passes them, and they are given
  \<open>TypeError\<close> as well.)
\<close>

datatype pyarg = ATensor tensor3 | AMatrix mat | AScalar real

definition call_compute_solve :: "solver \<Rightarrow> MuyGPS \<Rightarrow> pyarg list \<Rightarrow> error + mat" where
  "call_compute_solve slv self args =
     (if length args \<noteq> 3 then Inl TypeError
      else (case (args ! 0, args ! 1, args ! 2) of
              (ATensor K, AMatrix Kcross, ATensor batch_targets) \<Rightarrow>
                compute_solve slv self K Kcross batch_targets
            | _ \<Rightarrow> Inl TypeError))"

definition call_compute_diagonal_variance ::
  "solver \<Rightarrow> MuyGPS \<Rightarrow> pyarg list \<Rightarrow> error + vec" where
  "call_compute_diagonal_variance slv self args =
     (if length args \<noteq> 2 then Inl TypeError
      else (case (args ! 0, args ! 1) of
              (ATensor K, AMatrix Kcross) \<Rightarrow> compute_diagonal_variance slv self K Kcross
            | _ \<Rightarrow> Inl TypeError))"

text \<open>\<open>mm.zeros((r, c))\<close>, and \<open>a.reshape(n)\<close> of a matrix \<open>a\<close>.\<close>

definition zeros2 :: "nat \<Rightarrow> nat \<Rightarrow> mat" where
  "zeros2 r c = replicate r (replicate c 0)"

definition reshape1 :: "nat \<Rightarrow> mat \<Rightarrow> error + vec" where
  "reshape1 n a = (if length (concat a) = n then Inr (concat a) else Inl ValueError)"

text \<open>
  Modelled from the spec: \<open>assign\<close> of \<open>MuyGPyS._src.math\<close> is not among the sources.
  From its uses, \<open>mm.assign(x, y, slice(None), i)\<close> is \<open>x[:, i] = y\<close> and
  \<open>mm.assign(x, y, slice(None), slice(None), i)\<close> is \<open>x[:, :, i] = y\<close>, done on a copy
  of \<open>x\<close>: the value of the call is the changed copy, and \<open>x\<close> itself stays as it was.
  That is why \<open>_regress\<close> binds its names to the value again
  (\<open>responses = mm.assign(responses, ...)\<close>).  A column that \<open>x\<close> does not have raises
  \<open>IndexError\<close>, a \<open>y\<close> of another shape \<open>ValueError\<close>.
\<close>

definition assign_col :: "mat \<Rightarrow> vec \<Rightarrow> nat \<Rightarrow> error + mat" where
  "assign_col x y i =
     (case shape2 x of (r, c) \<Rightarrow>
        if c \<le> i then Inl IndexError
        else if length y \<noteq> r then Inl ValueError
        else Inr (map2 (\<lambda>row v. row[i := v]) x y))"

definition assign_plane :: "tensor3 \<Rightarrow> mat \<Rightarrow> nat \<Rightarrow> error + tensor3" where
  "assign_plane x y i =
     (case shape3 x of (b, n, c) \<Rightarrow>
        if c \<le> i then Inl IndexError
        else if \<not> is_mat b n y then Inl ValueError
        else Inr (map2 (map2 (\<lambda>row v. row[i := v])) x y))"

text \<open>A \<open>for\<close> loop over a list that threads a state and stops at the first exception.\<close>

fun for_each :: "('s \<Rightarrow> 'a \<Rightarrow> error + 's) \<Rightarrow> 's \<Rightarrow> 'a list \<Rightarrow> error + 's" where
  "for_each body s [] = Inr s"
| "for_each body s (x # xs) =
     (case body s x of Inl e \<Rightarrow> Inl e | Inr s' \<Rightarrow> for_each body s' xs)"

text \<open>
  One round of the loop of \<open>MultivariateMuyGPS._regress\<close>, for the model \<open>model\<close> at
  position \<open>i\<close>; the state is \<open>(responses, diagonal_variance)\<close>.  The arguments of the
  call of \<open>_compute_solve\<close> are evaluated before the call: the slice
  \<open>batch_nn_targets[:, :, i]\<close> raises \<open>IndexError\<close> when there is no column \<open>i\<close>.  The
  call passes four arguments, \<open>K\<close>, \<open>Kcross\<close>, the targets and \<open>model.eps()\<close>, and the
  call of \<open>_compute_diagonal_variance\<close> passes three.
\<close>

definition regress_body ::
  "solver \<Rightarrow> tensor3 \<Rightarrow> mat \<Rightarrow> tensor3 \<Rightarrow> SigmaSq \<Rightarrow> string option \<Rightarrow> bool \<Rightarrow> nat \<times> nat \<times> nat
   \<Rightarrow> mat \<times> mat \<Rightarrow> nat \<times> MuyGPS \<Rightarrow> error + mat \<times> mat" where
  "regress_body slv pairwise_dists crosswise_dists batch_nn_targets sigma_sq_vec variance_mode
     apply_sigma_sq shp acc im =
     (case shp of (batch_count, nn_count, response_count) \<Rightarrow>
      case acc of (responses, diagonal_variance) \<Rightarrow>
      case im of (i, model) \<Rightarrow>
        let K = kernel3 model pairwise_dists;
            Kcross = kernel2 model crosswise_dists
        in if response_count \<le> i then Inl IndexError
           else
            (case call_compute_solve slv model
                    [ATensor K, AMatrix Kcross,
                     ATensor (map (map (\<lambda>row. [row ! i])) batch_nn_targets),
                     AScalar (val (eps model))] of
               Inl e \<Rightarrow> Inl e
             | Inr solved \<Rightarrow>
            (case reshape1 batch_count solved of
               Inl e \<Rightarrow> Inl e
             | Inr column \<Rightarrow>
            (case assign_col responses column i of
               Inl e \<Rightarrow> Inl e
             | Inr responses' \<Rightarrow>
                 if variance_mode = Some ''diagonal'' then
                   (case (if apply_sigma_sq then index_at (ss_val sigma_sq_vec) (int i) else Inr 1) of
                      Inl e \<Rightarrow> Inl e
                    | Inr ss \<Rightarrow>
                   (case call_compute_diagonal_variance slv model
                           [ATensor K, AMatrix Kcross, AScalar (val (eps model))] of
                      Inl e \<Rightarrow> Inl e
                    | Inr variance \<Rightarrow>
                   (case reshape1 batch_count [variance] of
                      Inl e \<Rightarrow> Inl e
                    | Inr vcolumn \<Rightarrow>
                   (case assign_col diagonal_variance (map (\<lambda>v. v * ss) vcolumn) i of
                      Inl e \<Rightarrow> Inl e
                    | Inr diagonal_variance' \<Rightarrow> Inr (responses', diagonal_variance')))))
                 else Inr (responses', diagonal_variance)))))"

text \<open>
  \<open>MultivariateMuyGPS._regress\<close>.  The variance mode is looked at before the loop.  The
  name \<open>diagonal_variance\<close> is bound in the mode \<open>"diagonal"\<close> only; in the mode \<open>None\<close>
  the second component of the state is never read.
\<close>

definition mm_regress_impl ::
  "solver \<Rightarrow> MuyGPS list \<Rightarrow> tensor3 \<Rightarrow> mat \<Rightarrow> tensor3 \<Rightarrow> SigmaSq \<Rightarrow> string option \<Rightarrow> bool
   \<Rightarrow> error + mat regress_out" where
  "mm_regress_impl slv ms pairwise_dists crosswise_dists batch_nn_targets sigma_sq_vec variance_mode
     apply_sigma_sq =
     (case shape3 batch_nn_targets of (batch_count, nn_count, response_count) \<Rightarrow>
        let responses = zeros2 batch_count response_count
        in if variance_mode \<noteq> None \<and> variance_mode \<noteq> Some ''diagonal''
           then Inl NotImplementedError
           else
             let diagonal_variance =
                   (if variance_mode = None then [] else zeros2 batch_count response_count)
             in (case for_each
                        (regress_body slv pairwise_dists crosswise_dists batch_nn_targets sigma_sq_vec
                           variance_mode apply_sigma_sq (batch_count, nn_count, response_count))
                        (responses, diagonal_variance) (enumerate 0 ms) of
                   Inl e \<Rightarrow> Inl e
                 | Inr (responses', diagonal_variance') \<Rightarrow>
                     if variance_mode = Some ''diagonal''
                     then Inr (WithVariance responses' diagonal_variance')
                     else Inr (Responses responses')))"

text \<open>\<open>MultivariateMuyGPS.regress\<close>.\<close>

definition mm_regress ::
  "solver \<Rightarrow> MultivariateMuyGPS \<Rightarrow> tensor3 \<Rightarrow> mat \<Rightarrow> tensor3 \<Rightarrow> string option \<Rightarrow> bool
   \<Rightarrow> error + mat regress_out" where
  "mm_regress slv self pairwise_dists crosswise_dists batch_nn_targets variance_mode apply_sigma_sq =
     mm_regress_impl slv (models self) pairwise_dists crosswise_dists batch_nn_targets
       (mm_sigma_sq self) variance_mode (apply_sigma_sq \<and> trained (mm_sigma_sq self))"

text \<open>
  \<open>MultivariateMuyGPS.regress_from_indices\<close>.  The builders of the tensors,
  \<open>_make_regress_tensors\<close> and its numpy variant, and \<open>_is_mpi_mode\<close> are collaborators
  outside the sources: the function takes them as arguments.  A builder gives
  \<open>(crosswise_dists, pairwise_dists, batch_nn_targets)\<close> or raises.
\<close>

type_synonym tensor_fn =
  "string \<Rightarrow> int list \<Rightarrow> int list list \<Rightarrow> mat \<Rightarrow> mat \<Rightarrow> mat \<Rightarrow> error + (mat \<times> tensor3 \<times> tensor3)"

datatype from_indices_out =
  Plain "mat regress_out"
  | ResponsesDists mat mat tensor3
  | ResponsesVarianceDists mat mat mat tensor3

definition regress_from_indices ::
  "solver \<Rightarrow> bool \<Rightarrow> tensor_fn \<Rightarrow> tensor_fn \<Rightarrow> MultivariateMuyGPS \<Rightarrow> int list \<Rightarrow> int list list
   \<Rightarrow> mat \<Rightarrow> mat \<Rightarrow> mat \<Rightarrow> string option \<Rightarrow> bool \<Rightarrow> bool \<Rightarrow> bool \<Rightarrow> error + from_indices_out" where
  "regress_from_indices slv is_mpi_mode make_regress_tensors_n make_regress_tensors self indices
     nn_indices test train targets variance_mode apply_sigma_sq return_distances indices_by_rank =
     (let tensor_fn =
            (if is_mpi_mode \<and> indices_by_rank then make_regress_tensors_n
             else make_regress_tensors)
      in (case tensor_fn (metric self) indices nn_indices test train targets of
            Inl e \<Rightarrow> Inl e
          | Inr (crosswise_dists, pairwise_dists, batch_nn_targets) \<Rightarrow>
         (case mm_regress slv self pairwise_dists crosswise_dists batch_nn_targets variance_mode
                 apply_sigma_sq of
            Inl e \<Rightarrow> Inl e
          | Inr responses \<Rightarrow>
              if \<not> return_distances then Inr (Plain responses)
              else if variance_mode = None then
                (case responses of
                   Responses r \<Rightarrow> Inr (ResponsesDists r crosswise_dists pairwise_dists)
                 | WithVariance r v \<Rightarrow> Inl ValueError)
              else
                (case responses of
                   Responses r \<Rightarrow> Inl ValueError
                 | WithVariance r v \<Rightarrow>
                     Inr (ResponsesVarianceDists r v crosswise_dists pairwise_dists)))))"

text \<open>The responses and variances among the values that \<open>regress_from_indices\<close> returns.\<close>

fun results_of :: "from_indices_out \<Rightarrow> mat regress_out" where
  "results_of (Plain r) = r"
| "results_of (ResponsesDists r crosswise_dists pairwise_dists) = Responses r"
| "results_of (ResponsesVarianceDists r v crosswise_dists pairwise_dists) = WithVariance r v"

text \<open>
  The contract of the spec for \<open>regress_from_indices\<close>: build the tensors with the
  collaborator, then call \<open>regress\<close> on them.
\<close>

definition tensors_then_regress ::
  "solver \<Rightarrow> tensor_fn \<Rightarrow> MultivariateMuyGPS \<Rightarrow> int list \<Rightarrow> int list list
   \<Rightarrow> mat \<Rightarrow> mat \<Rightarrow> mat \<Rightarrow> string option \<Rightarrow> bool \<Rightarrow> error + mat regress_out" where
  "tensors_then_regress slv tensor_fn self indices nn_indices test train targets variance_mode
     apply_sigma_sq =
     (case tensor_fn (metric self) indices nn_indices test train targets of
        Inl e \<Rightarrow> Inl e
      | Inr (crosswise_dists, pairwise_dists, batch_nn_targets) \<Rightarrow>
          mm_regress slv self pairwise_dists crosswise_dists batch_nn_targets variance_mode
            apply_sigma_sq)"

section \<open>Fast regression\<close>

text \<open>
  Modelled from the spec: \<open>_mmuygps_fast_regress_solve\<close> of \<open>MuyGPyS._src.gp.muygps\<close> is
  not among the sources.  By the spec the final step is a batched dot product, for every
  response dimension with the kernel of that dimension: the response \<open>(i, d)\<close> is the sum
  over the neighbours \<open>j\<close> of \<open>Kcross[i, j, d] * coeffs[i, j, d]\<close>.
\<close>

definition fast_regress_solve :: "tensor3 \<Rightarrow> tensor3 \<Rightarrow> mat" where
  "fast_regress_solve Kcross coeffs_tensor =
     map2 (\<lambda>Kc C. map (\<lambda>d. dot (col d Kc) (col d C)) [0..<ncols C]) Kcross coeffs_tensor"

text \<open>
  \<open>MultivariateMuyGPS._fast_regress\<close>.  \<open>Kcross\<close> starts as zeros of the shape of the
  coefficients.  Every round of the loop calls
  \<open>mm.assign(Kcross, model.kernel(crosswise_dists), slice(None), slice(None), i)\<close> as a
  statement: an exception of the call ends the loop, its value is dropped, and the name
  \<open>Kcross\<close> keeps the array that it had.
\<close>

definition fast_regress_body :: "mat \<Rightarrow> tensor3 \<Rightarrow> nat \<times> MuyGPS \<Rightarrow> error + tensor3" where
  "fast_regress_body crosswise_dists Kcross im =
     (case im of (i, model) \<Rightarrow>
        (case assign_plane Kcross (kernel2 model crosswise_dists) i of
           Inl e \<Rightarrow> Inl e
         | Inr assigned \<Rightarrow> Inr Kcross))"

definition zeros3 :: "nat \<times> nat \<times> nat \<Rightarrow> tensor3" where
  "zeros3 shp = (case shp of (b, n, c) \<Rightarrow> replicate b (replicate n (replicate c 0)))"

definition mm_fast_regress_impl :: "MuyGPS list \<Rightarrow> mat \<Rightarrow> tensor3 \<Rightarrow> error + mat" where
  "mm_fast_regress_impl ms crosswise_dists coeffs_tensor =
     (case for_each (fast_regress_body crosswise_dists) (zeros3 (shape3 coeffs_tensor))
             (enumerate 0 ms) of
        Inl e \<Rightarrow> Inl e
      | Inr Kcross \<Rightarrow> Inr (fast_regress_solve Kcross coeffs_tensor))"

text \<open>\<open>MultivariateMuyGPS.fast_regress\<close>.\<close>

definition mm_fast_regress :: "MultivariateMuyGPS \<Rightarrow> mat \<Rightarrow> tensor3 \<Rightarrow> error + mat" where
  "mm_fast_regress self crosswise_dists coeffs_tensor =
     mm_fast_regress_impl (models self) crosswise_dists coeffs_tensor"

text \<open>
  \<open>MultivariateMuyGPS.fast_regress_from_indices\<close>.  \<open>crosswise_distances\<close> is a
  collaborator outside the sources and is an argument here.
  \<open>coeffs_tensor[closest_index, :, :]\<close> picks the block of the closest training point for
  every element of the batch.
\<close>

definition mm_fast_regress_from_indices ::
  "(mat \<Rightarrow> mat \<Rightarrow> int list \<Rightarrow> int list list \<Rightarrow> error + mat) \<Rightarrow> MultivariateMuyGPS \<Rightarrow> int list
   \<Rightarrow> int list list \<Rightarrow> mat \<Rightarrow> mat \<Rightarrow> int list \<Rightarrow> tensor3 \<Rightarrow> error + mat" where
  "mm_fast_regress_from_indices crosswise_distances self indices nn_indices test_features
     train_features closest_index coeffs_tensor =
     (case crosswise_distances test_features train_features indices nn_indices of
        Inl e \<Rightarrow> Inl e
      | Inr crosswise_dists \<Rightarrow>
          (case take_indices coeffs_tensor closest_index of
             Inl e \<Rightarrow> Inl e
           | Inr coeffs \<Rightarrow> mm_fast_regress self crosswise_dists coeffs))"

text \<open>
  Engines to run the multivariate code with: one model, and two models with different
  noise, with a trained scale vector.
\<close>

definition scenario_mm :: MultivariateMuyGPS where
  "scenario_mm =
     \<lparr>models = [scenario_engine], metric = ''l2'',
      mm_sigma_sq = \<lparr>ss_val = [2], trained = True\<rparr>\<rparr>"

definition second_engine :: MuyGPS where
  "second_engine =
     \<lparr>kernel = (\<lambda>d. 1 / (1 + d)), hyperparameters = Map.empty,
      eps = \<lparr>val = 1 / 1000, bounds = Fixed\<rparr>, sigma_sq = [\<lparr>val = 1, bounds = Fixed\<rparr>]\<rparr>"

definition two_models_mm :: MultivariateMuyGPS where
  "two_models_mm =
     \<lparr>models = [scenario_engine, second_engine], metric = ''l2'',
      mm_sigma_sq = \<lparr>ss_val = [2, 3], trained = True\<rparr>\<rparr>"

text \<open>
  An engine without noise, and the distances of three neighbours at distance 1 from each
  other.
\<close>

definition noiseless_engine :: MuyGPS where
  "noiseless_engine =
     \<lparr>kernel = (\<lambda>d. if d = 0 then 1 else 0), hyperparameters = Map.empty,
      eps = \<lparr>val = 0, bounds = Fixed\<rparr>, sigma_sq = [\<lparr>val = 1, bounds = Fixed\<rparr>]\<rparr>"

definition unit_dists :: tensor3 where
  "unit_dists = [[[0, 1, 1], [1, 0, 1], [1, 1, 0]]]"

text \<open>
  A collaborator to run \<open>fast_regress_from_indices\<close> with: the squared Euclidean
  distances (the metric \<open>F2\<close>) from the chosen test points to their neighbours.
\<close>

definition f2_distance :: "vec \<Rightarrow> vec \<Rightarrow> real" where
  "f2_distance x y = sum_list (map2 (\<lambda>a b. (a - b) * (a - b)) x y)"

definition example_crosswise_distances ::
  "mat \<Rightarrow> mat \<Rightarrow> int list \<Rightarrow> int list list \<Rightarrow> error + mat" where
  "example_crosswise_distances test train indices nn_indices =
     collect (map2 (\<lambda>i neighbours.
        (case index_at test i of
           Inl e \<Rightarrow> Inl e
         | Inr x \<Rightarrow>
             (case take_indices train neighbours of
                Inl e \<Rightarrow> Inl e
              | Inr ys \<Rightarrow> Inr (map (f2_distance x) ys)))) indices nn_indices)"

definition example_coeffs :: tensor3 where
  "example_coeffs =
     [[[1, 0], [0, 1], [1, 1]], [[2, 2], [0, 0], [1, 3]], [[1, 2], [3, 4], [5, 6]]]"

section \<open>Properties of the single-model engine\<close>

subsection \<open>Auxiliary facts\<close>

lemma lin_solve_contract: "solve_contract lin_solve"
  unfolding solve_contract_def lin_solve_def
  by (auto simp: Let_def is_mat_def split: if_splits option.splits)

lemma those_map_Some:
  "those (map f xs) = Some ys \<Longrightarrow> length ys = length xs \<and> (\<forall>i<length xs. f (xs ! i) = Some (ys ! i))"
proof (induction xs arbitrary: ys)
  case Nil
  then show ?case by simp
next
  case (Cons a xs)
  then obtain y ys' where a: "f a = Some y" and r: "those (map f xs) = Some ys'" and ys: "ys = y # ys'"
    by (auto split: option.splits)
  from Cons.IH[OF r] have "length ys' = length xs" and "\<forall>i<length xs. f (xs ! i) = Some (ys' ! i)"
    by auto
  with a ys show ?case by (auto simp: nth_Cons')
qed

lemma those_map_None:
  "those (map f xs) = None \<Longrightarrow> \<exists>i<length xs. f (xs ! i) = None"
proof (induction xs)
  case Nil
  then show ?case by simp
next
  case (Cons a xs)
  show ?case
  proof (cases "f a")
    case None
    then show ?thesis by auto
  next
    case (Some y)
    with Cons.prems have "those (map f xs) = None" by (auto split: option.splits)
    from Cons.IH[OF this] obtain i where "i < length xs" "f (xs ! i) = None" by auto
    then have "Suc i < length (a # xs) \<and> f ((a # xs) ! Suc i) = None" by simp
    then show ?thesis by blast
  qed
qed

lemma ncols_is_mat: "is_mat r c M \<Longrightarrow> 0 < r \<Longrightarrow> ncols M = c"
  by (cases M) (auto simp: is_mat_def ncols_def)

lemma shape3_is_tensor3:
  "is_tensor3 b k rc T \<Longrightarrow> 0 < b \<Longrightarrow> 0 < k \<Longrightarrow> shape3 T = (b, k, rc)"
  by (cases T) (auto simp: is_tensor3_def shape3_def ncols_is_mat is_mat_def ncols_def split: list.splits)

lemma is_tensor3_nth: "is_tensor3 b r c T \<Longrightarrow> i < b \<Longrightarrow> is_mat r c (T ! i)"
  by (auto simp: is_tensor3_def list_all_length)

lemma length_row_times: "length (row_times v M) = ncols M"
  by (simp add: row_times_def)

subsection \<open>The mean solve\<close>

lemma compute_solve_general:
  assumes c: "solve_contract slv" and K: "is_tensor3 b k k K" and Kc: "is_mat b k Kcross"
    and T: "is_tensor3 b k rc T" and k: "0 < k"
  shows "(case compute_solve slv self K Kcross T of
            Inr R \<Rightarrow> is_mat b rc R \<and>
              (\<forall>i<b. \<exists>x. is_mat k rc x \<and> mat_mul (add_nugget self k (K ! i)) x = T ! i
                        \<and> R ! i = row_times (Kcross ! i) x)
          | Inl e \<Rightarrow> e = LinAlgError \<and> (\<exists>i<b. slv (add_nugget self k (K ! i)) (T ! i) = None))"
proof (cases "b = 0")
  case True
  with K Kc T show ?thesis
    by (simp add: compute_solve_def shape3_def is_tensor3_def is_mat_def ncols_def)
next
  case False
  then have b: "0 < b" by simp
  have sh: "shape3 T = (b, k, rc)" using shape3_is_tensor3[OF T b k] .
  have lK: "length K = b" and lT: "length T = b" and lKc: "length Kcross = b"
    using K T Kc by (auto simp: is_tensor3_def is_mat_def)
  let ?f = "\<lambda>(Ki, Ti). slv (add_nugget self k Ki) Ti"
  show ?thesis
  proof (cases "those (map ?f (zip K T))")
    case None
    from those_map_None[OF None] obtain i where "i < length (zip K T)" "?f (zip K T ! i) = None"
      by blast
    then have "i < b" "slv (add_nugget self k (K ! i)) (T ! i) = None"
      using lK lT by auto
    then show ?thesis using None sh K Kc T
      by (auto simp: compute_solve_def)
  next
    case (Some X)
    from those_map_Some[OF Some] have lX: "length X = b"
      and X: "\<forall>i<b. slv (add_nugget self k (K ! i)) (T ! i) = Some (X ! i)"
      using lK lT by auto
    have sol: "is_mat k rc (X ! i) \<and> mat_mul (add_nugget self k (K ! i)) (X ! i) = T ! i" if "i < b" for i
    proof -
      have Ti: "is_mat k rc (T ! i)" using is_tensor3_nth[OF T that] .
      then have "length (T ! i) = k" "ncols (T ! i) = rc"
        using ncols_is_mat[OF Ti k] by (auto simp: is_mat_def)
      moreover have "slv (add_nugget self k (K ! i)) (T ! i) = Some (X ! i)" using X that by simp
      ultimately show ?thesis using c unfolding solve_contract_def by metis
    qed
    have R: "compute_solve slv self K Kcross T = Inr (map2 row_times Kcross X)"
      using Some sh K Kc T by (simp add: compute_solve_def)
    have "is_mat b rc (map2 row_times Kcross X)"
      using lX lKc sol by (auto simp: is_mat_def list_all_length length_row_times ncols_is_mat k)
    moreover have "\<forall>i<b. \<exists>x. is_mat k rc x \<and> mat_mul (add_nugget self k (K ! i)) x = T ! i
                        \<and> map2 row_times Kcross X ! i = row_times (Kcross ! i) x"
      using sol lX lKc by auto
    ultimately show ?thesis using R by simp
  qed
qed

lemma is_mat_3_1: "is_mat 3 1 X \<Longrightarrow> \<exists>a b c. X = [[a], [b], [c]]"
  by (auto simp: is_mat_def length_Suc_conv numeral_3_eq_3)

lemma eye3: "eye 3 = [[1, 0, 0], [0, 1, 0], [0, 0, 1]]"
  by code_simp

lemma scenario_solution:
  assumes "is_mat 3 1 X" "val (eps self) = 1 / 100000"
    "mat_mul (add_nugget self 3 (eye 3)) X = [[2], [4], [6]]"
  shows "X = [[2 / (1 + 1 / 100000)], [4 / (1 + 1 / 100000)], [6 / (1 + 1 / 100000)]]"
proof -
  from is_mat_3_1[OF assms(1)] obtain a b c where X: "X = [[a], [b], [c]]" by blast
  have A: "add_nugget self 3 (eye 3) = [[1 + 1/100000, 0, 0], [0, 1 + 1/100000, 0], [0, 0, 1 + 1/100000]]"
    by (simp add: add_nugget_def eye3 smult_def mat_add_def assms(2))
  from assms(3) show ?thesis
    unfolding A X by (simp add: mat_mul_def row_times_def ncols_def dot_def col_def field_simps)
qed

text \<open>
  Claim C1.  With a solver that answers \<open>A X = B\<close>, on arrays of the documented shapes
  \<open>_compute_solve\<close> either raises \<open>LinAlgError\<close>, because the solver did on one of the
  systems, or returns a \<open>(batch, response_count)\<close> matrix whose row \<open>i\<close> is
  \<open>Kcross_i @ x\<close> for an \<open>x\<close> with \<open>(K_i + eps I) x = batch_targets_i\<close>.  In the
  scenario with \<open>k = 3\<close>, noise \<open>1e-5\<close>, the identity as kernel matrix, \<open>Kcross = [0.5, 0.3, 0.1]\<close>
  and targets \<open>[[2], [4], [6]]\<close> every returned response is
  \<open>(0.5 * 2 + 0.3 * 4 + 0.1 * 6) / (1 + 1e-5)\<close>, which is within \<open>1e-4\<close> of \<open>2.8\<close>.
\<close>

theorem compute_solve_correct:
  assumes c: "solve_contract slv" and K: "is_tensor3 b k k K" and Kc: "is_mat b k Kcross"
    and T: "is_tensor3 b k rc T" and k: "0 < k"
  shows "(case compute_solve slv self K Kcross T of
            Inr R \<Rightarrow> is_mat b rc R \<and>
              (\<forall>i<b. \<exists>x. is_mat k rc x \<and> mat_mul (add_nugget self k (K ! i)) x = T ! i
                        \<and> R ! i = row_times (Kcross ! i) x)
          | Inl e \<Rightarrow> e = LinAlgError \<and> (\<exists>i<b. slv (add_nugget self k (K ! i)) (T ! i) = None))
       \<and> (val (eps self) = 1 / 100000 \<longrightarrow>
           (\<forall>R. compute_solve slv self [eye 3] [[1/2, 3/10, 1/10]] [[[2], [4], [6]]] = Inr R \<longrightarrow>
              R = [[(1/2 * 2 + 3/10 * 4 + 1/10 * 6) / (1 + 1 / 100000)]]
              \<and> \<bar>R ! 0 ! 0 - 28 / 10\<bar> < 1 / 10000))"
proof (intro conjI impI allI)
  show "(case compute_solve slv self K Kcross T of
            Inr R \<Rightarrow> is_mat b rc R \<and>
              (\<forall>i<b. \<exists>x. is_mat k rc x \<and> mat_mul (add_nugget self k (K ! i)) x = T ! i
                        \<and> R ! i = row_times (Kcross ! i) x)
          | Inl e \<Rightarrow> e = LinAlgError \<and> (\<exists>i<b. slv (add_nugget self k (K ! i)) (T ! i) = None))"
    using compute_solve_general[OF c K Kc T k] .
next
  fix R
  assume e: "val (eps self) = 1 / 100000"
    and R: "compute_solve slv self [eye 3] [[1/2, 3/10, 1/10]] [[[2], [4], [6]]] = Inr R"
  have h1: "is_tensor3 1 3 3 [eye 3]" by code_simp
  have h2: "is_mat 1 3 [[1/2, 3/10, 1/10 :: real]]" by code_simp
  have h3: "is_tensor3 1 3 1 [[[2], [4], [6 :: real]]]" by code_simp
  from compute_solve_general[OF c h1 h2 h3, of self] R
  obtain x where R1: "is_mat 1 1 R" and x: "is_mat 3 1 x"
    and s: "mat_mul (add_nugget self 3 (eye 3)) x = [[2], [4], [6]]"
    and r: "R ! 0 = row_times [1/2, 3/10, 1/10] x"
    by auto
  from scenario_solution[OF x e s] r
  have r0: "R ! 0 = [(1/2 * 2 + 3/10 * 4 + 1/10 * 6) / (1 + 1 / 100000)]"
    by (simp add: row_times_def ncols_def dot_def col_def)
  from R1 obtain row where Rr: "R = [row]"
    by (auto simp: is_mat_def length_Suc_conv)
  with r0 show "R = [[(1/2 * 2 + 3/10 * 4 + 1/10 * 6) / (1 + 1 / 100000)]]" by simp
  with r0 show "\<bar>R ! 0 ! 0 - 28 / 10\<bar> < 1 / 10000" by simp
qed

theorem compute_solve_correct_witness:
  "solve_contract lin_solve \<and> is_tensor3 1 3 3 [eye 3] \<and> is_mat 1 3 [[1/2, 3/10, 1/10 :: real]]
   \<and> is_tensor3 1 3 1 [[[2], [4], [6 :: real]]] \<and> (0::nat) < 3
   \<and> val (eps scenario_engine) = 1 / 100000
   \<and> compute_solve lin_solve scenario_engine [eye 3] [[1/2, 3/10, 1/10]] [[[2], [4], [6]]]
       = Inr [[280000 / 100001]]"
proof -
  have h1: "is_tensor3 1 3 3 [eye 3]" by code_simp
  have h2: "is_mat 1 3 [[1/2, 3/10, 1/10 :: real]]" by code_simp
  have h3: "is_tensor3 1 3 1 [[[2], [4], [6 :: real]]]" by code_simp
  have h4: "val (eps scenario_engine) = 1 / 100000" by (simp add: scenario_engine_def)
  have ev: "compute_solve lin_solve scenario_engine [eye 3] [[1/2, 3/10, 1/10]] [[[2], [4], [6]]]
       = Inr [[280000 / 100001]]" by code_simp
  from compute_solve_correct[OF lin_solve_contract h1 h2 h3, of scenario_engine] h4 ev
  have "\<bar>[[280000 / 100001]] ! 0 ! 0 - 28 / 10\<bar> < (1 / 10000 :: real)" by simp
  with lin_solve_contract h1 h2 h3 h4 ev show ?thesis by simp
qed

subsection \<open>The diagonal variance\<close>

lemma collect_map_Inr:
  "collect (map f xs) = Inr ys \<Longrightarrow> length ys = length xs \<and> (\<forall>i<length xs. f (xs ! i) = Inr (ys ! i))"
proof (induction xs arbitrary: ys)
  case Nil
  then show ?case by simp
next
  case (Cons a xs)
  then obtain y ys' where a: "f a = Inr y" and r: "collect (map f xs) = Inr ys'" and ys: "ys = y # ys'"
    by (cases "f a") (auto split: sum.splits)
  from Cons.IH[OF r] a ys show ?case by (auto simp: nth_Cons')
qed

lemma collect_map_Inl:
  "collect (map f xs) = Inl e \<Longrightarrow> \<exists>i<length xs. f (xs ! i) = Inl e"
proof (induction xs)
  case Nil
  then show ?case by simp
next
  case (Cons a xs)
  show ?case
  proof (cases "f a")
    case (Inl e')
    with Cons.prems show ?thesis by auto
  next
    case (Inr y)
    with Cons.prems have "collect (map f xs) = Inl e" by (auto split: sum.splits)
    from Cons.IH[OF this] obtain i where "i < length xs" "f (xs ! i) = Inl e" by auto
    then have "Suc i < length (a # xs) \<and> f ((a # xs) ! Suc i) = Inl e" by simp
    then show ?thesis by blast
  qed
qed

lemma shape2_is_mat: "is_mat b k M \<Longrightarrow> 0 < b \<Longrightarrow> shape2 M = (b, k)"
  by (simp add: shape2_def ncols_is_mat) (simp add: is_mat_def)

lemma is_mat_nth: "is_mat r c M \<Longrightarrow> i < r \<Longrightarrow> length (M ! i) = c"
  by (auto simp: is_mat_def list_all_length)

lemma column_solution:
  assumes X: "is_mat (length b) 1 X" and m: "mat_mul A X = map (\<lambda>v. [v]) b" and l: "0 < length b"
  shows "mat_vec A (col 0 X) = b"
proof -
  have n: "ncols X = 1" using ncols_is_mat[OF X l] .
  have "map hd (mat_mul A X) = mat_vec A (col 0 X)"
    by (simp add: mat_mul_def mat_vec_def row_times_def n)
  moreover have "map hd (map (\<lambda>v. [v]) b) = b" by (simp add: comp_def)
  ultimately show ?thesis using m by simp
qed

lemma solve_vec_sound:
  assumes c: "solve_contract slv" and s: "solve_vec slv A b = Some x" and l: "0 < length b"
  shows "length x = length b \<and> mat_vec A x = b"
proof -
  from s obtain X where X: "slv A (map (\<lambda>v. [v]) b) = Some X" and x: "x = col 0 X"
    by (auto simp: solve_vec_def)
  have nc: "ncols (map (\<lambda>v. [v]) b) = 1" using l by (cases b) (auto simp: ncols_def)
  from c X nc have sh: "is_mat (length b) 1 X" and m: "mat_mul A X = map (\<lambda>v. [v]) b"
    unfolding solve_contract_def by fastforce+
  from column_solution[OF sh m l] sh x show ?thesis by (simp add: col_def is_mat_def)
qed

lemma compute_diagonal_variance_general:
  assumes c: "solve_contract slv" and K: "is_tensor3 b k k K" and Kc: "is_mat b k Kcross"
    and k: "0 < k"
  shows "(case compute_diagonal_variance slv self K Kcross of
            Inr V \<Rightarrow> length V = b \<and>
              (\<forall>i<b. \<exists>x. length x = k \<and> mat_vec (add_nugget self k (K ! i)) x = Kcross ! i
                        \<and> V ! i = 1 - dot (Kcross ! i) x)
          | Inl e \<Rightarrow> e = LinAlgError
              \<and> (\<exists>i<b. solve_vec slv (add_nugget self k (K ! i)) (Kcross ! i) = None))"
proof (cases "b = 0")
  case True
  with Kc show ?thesis
    by (simp add: compute_diagonal_variance_def shape2_def is_mat_def ncols_def)
next
  case False
  then have b: "0 < b" by simp
  have sh: "shape2 Kcross = (b, k)" using shape2_is_mat[OF Kc b] .
  have lK: "length K = b" using K by (simp add: is_tensor3_def)
  let ?f = "variance_at slv self k K Kcross"
  have cdv: "compute_diagonal_variance slv self K Kcross = collect (map ?f [0..<b])"
    using sh Kc by (simp add: compute_diagonal_variance_def)
  have at: "?f i = (case solve_vec slv (add_nugget self k (K ! i)) (Kcross ! i) of
                      None \<Rightarrow> Inl LinAlgError | Some x \<Rightarrow> Inr (1 - dot (Kcross ! i) x))"
    if "i < b" for i
    using that lK is_tensor3_nth[OF K that] by (simp add: variance_at_def)
  show ?thesis
  proof (cases "collect (map ?f [0..<b])")
    case (Inl e)
    from collect_map_Inl[OF Inl] obtain i where i: "i < b" and fi: "?f i = Inl e" by auto
    with at[OF i] have "e = LinAlgError \<and> solve_vec slv (add_nugget self k (K ! i)) (Kcross ! i) = None"
      by (auto split: option.splits)
    with i Inl cdv show ?thesis by auto
  next
    case (Inr V)
    from collect_map_Inr[OF Inr] have lV: "length V = b" and V: "\<forall>i<b. ?f i = Inr (V ! i)"
      by auto
    have "\<exists>x. length x = k \<and> mat_vec (add_nugget self k (K ! i)) x = Kcross ! i
                        \<and> V ! i = 1 - dot (Kcross ! i) x" if i: "i < b" for i
    proof -
      from V i at[OF i] obtain x where s: "solve_vec slv (add_nugget self k (K ! i)) (Kcross ! i) = Some x"
        and v: "V ! i = 1 - dot (Kcross ! i) x"
        by (auto split: option.splits)
      have l: "length (Kcross ! i) = k" using is_mat_nth[OF Kc i] .
      from solve_vec_sound[OF c s] l k v show ?thesis by auto
    qed
    with lV Inr cdv show ?thesis by simp
  qed
qed

lemma scenario_vector_solution:
  assumes "length x = 3" "val (eps self) = 1 / 100000"
    "mat_vec (add_nugget self 3 (eye 3)) x = [1/2, 3/10, 1/10]"
  shows "x = [(1/2) / (1 + 1 / 100000), (3/10) / (1 + 1 / 100000), (1/10) / (1 + 1 / 100000)]"
proof -
  from assms(1) obtain a b c where x: "x = [a, b, c]"
    by (auto simp: length_Suc_conv numeral_3_eq_3)
  have A: "add_nugget self 3 (eye 3) = [[1 + 1/100000, 0, 0], [0, 1 + 1/100000, 0], [0, 0, 1 + 1/100000]]"
    by (simp add: add_nugget_def eye3 smult_def mat_add_def assms(2))
  from assms(3) show ?thesis
    unfolding A x by (simp add: mat_vec_def dot_def field_simps)
qed

text \<open>
  Claim C2.  With a solver that answers \<open>A X = B\<close>, on arrays of the documented shapes
  \<open>_compute_diagonal_variance\<close> either raises \<open>LinAlgError\<close>, because the solver did on
  one of the systems, or returns a vector whose entry \<open>i\<close> is \<open>1 - Kcross_i @ x\<close> for an
  \<open>x\<close> with \<open>(K_i + eps I) x = Kcross_i\<close>.  In the scenario with the identity as kernel
  matrix, noise \<open>1e-5\<close> and \<open>Kcross = [0.5, 0.3, 0.1]\<close> every returned variance is
  \<open>1 - (0.25 + 0.09 + 0.01) / (1 + 1e-5)\<close>, which is within \<open>1e-4\<close> of \<open>0.65\<close>.
\<close>

theorem compute_diagonal_variance_correct:
  assumes c: "solve_contract slv" and K: "is_tensor3 b k k K" and Kc: "is_mat b k Kcross"
    and k: "0 < k"
  shows "(case compute_diagonal_variance slv self K Kcross of
            Inr V \<Rightarrow> length V = b \<and>
              (\<forall>i<b. \<exists>x. length x = k \<and> mat_vec (add_nugget self k (K ! i)) x = Kcross ! i
                        \<and> V ! i = 1 - dot (Kcross ! i) x)
          | Inl e \<Rightarrow> e = LinAlgError
              \<and> (\<exists>i<b. solve_vec slv (add_nugget self k (K ! i)) (Kcross ! i) = None))
       \<and> (val (eps self) = 1 / 100000 \<longrightarrow>
           (\<forall>V. compute_diagonal_variance slv self [eye 3] [[1/2, 3/10, 1/10]] = Inr V \<longrightarrow>
              V = [1 - (25/100 + 9/100 + 1/100) / (1 + 1 / 100000)]
              \<and> \<bar>V ! 0 - 65 / 100\<bar> < 1 / 10000))"
proof (intro conjI impI allI)
  show "(case compute_diagonal_variance slv self K Kcross of
            Inr V \<Rightarrow> length V = b \<and>
              (\<forall>i<b. \<exists>x. length x = k \<and> mat_vec (add_nugget self k (K ! i)) x = Kcross ! i
                        \<and> V ! i = 1 - dot (Kcross ! i) x)
          | Inl e \<Rightarrow> e = LinAlgError
              \<and> (\<exists>i<b. solve_vec slv (add_nugget self k (K ! i)) (Kcross ! i) = None))"
    using compute_diagonal_variance_general[OF c K Kc k] .
next
  fix V
  assume e: "val (eps self) = 1 / 100000"
    and V: "compute_diagonal_variance slv self [eye 3] [[1/2, 3/10, 1/10]] = Inr V"
  have h1: "is_tensor3 1 3 3 [eye 3]" by code_simp
  have h2: "is_mat 1 3 [[1/2, 3/10, 1/10 :: real]]" by code_simp
  from compute_diagonal_variance_general[OF c h1 h2, of self] V
  obtain x where V1: "length V = 1" and x: "length x = 3"
    and s: "mat_vec (add_nugget self 3 (eye 3)) x = [1/2, 3/10, 1/10]"
    and r: "V ! 0 = 1 - dot [1/2, 3/10, 1/10] x"
    by auto
  from scenario_vector_solution[OF x e s] r
  have r0: "V ! 0 = 1 - (25/100 + 9/100 + 1/100) / (1 + 1 / 100000)"
    by (simp add: dot_def)
  from V1 obtain v where Vv: "V = [v]"
    by (auto simp: length_Suc_conv)
  with r0 show "V = [1 - (25/100 + 9/100 + 1/100) / (1 + 1 / 100000)]" by simp
  with r0 show "\<bar>V ! 0 - 65 / 100\<bar> < 1 / 10000" by simp
qed

theorem compute_diagonal_variance_correct_witness:
  "solve_contract lin_solve \<and> is_tensor3 1 3 3 [eye 3] \<and> is_mat 1 3 [[1/2, 3/10, 1/10 :: real]]
   \<and> (0::nat) < 3 \<and> val (eps scenario_engine) = 1 / 100000
   \<and> compute_diagonal_variance lin_solve scenario_engine [eye 3] [[1/2, 3/10, 1/10]]
       = Inr [65001 / 100001]"
proof -
  have h1: "is_tensor3 1 3 3 [eye 3]" by code_simp
  have h2: "is_mat 1 3 [[1/2, 3/10, 1/10 :: real]]" by code_simp
  have h4: "val (eps scenario_engine) = 1 / 100000" by (simp add: scenario_engine_def)
  have ev: "compute_diagonal_variance lin_solve scenario_engine [eye 3] [[1/2, 3/10, 1/10]]
       = Inr [65001 / 100001]" by code_simp
  from compute_diagonal_variance_correct[OF lin_solve_contract h1 h2, of scenario_engine] h4 ev
  have "\<bar>[65001 / 100001] ! 0 - 65 / 100\<bar> < (1 / 10000 :: real)" by simp
  with lin_solve_contract h1 h2 h4 ev show ?thesis by simp
qed

subsection \<open>The optimisation parameters\<close>

lemma get_optim_params_unfixed:
  "get_optim_params self q = Some h \<Longrightarrow> get_bounds h \<noteq> Fixed"
  by (auto simp: get_optim_params_def Let_def split: if_splits option.splits)

lemma bench_get_optim_params_unfixed:
  "bench_get_optim_params self q = Some h \<Longrightarrow> \<not> fixed h"
  by (auto simp: bench_get_optim_params_def Let_def split: if_splits option.splits)

lemma mutate_other_kernel_param:
  "target m \<noteq> KernelParam p \<Longrightarrow> hyperparameters (mutate self m) p = hyperparameters self p"
  by (cases m) auto

lemma bench_mutate_other_kernel_param:
  "target m \<noteq> KernelParam p \<Longrightarrow>
     bench_hyperparameters (bench_mutate self m) p = bench_hyperparameters self p"
  by (cases m) auto

lemma mutate_other_eps: "target m \<noteq> Eps \<Longrightarrow> eps (mutate self m) = eps self"
  by (cases m) auto

lemma bench_mutate_other_eps: "target m \<noteq> Eps \<Longrightarrow> bench_eps (bench_mutate self m) = bench_eps self"
  by (cases m) auto

lemma foldl_mutate_kernel_param:
  "\<forall>m\<in>set ms. target m \<noteq> KernelParam p \<Longrightarrow>
     hyperparameters (foldl mutate self ms) p = hyperparameters self p"
  by (induction ms arbitrary: self) (simp_all add: mutate_other_kernel_param)

lemma foldl_bench_mutate_kernel_param:
  "\<forall>m\<in>set ms. target m \<noteq> KernelParam p \<Longrightarrow>
     bench_hyperparameters (foldl bench_mutate self ms) p = bench_hyperparameters self p"
  by (induction ms arbitrary: self) (simp_all add: bench_mutate_other_kernel_param)

lemma foldl_mutate_eps:
  "\<forall>m\<in>set ms. target m \<noteq> Eps \<Longrightarrow> eps (foldl mutate self ms) = eps self"
  by (induction ms arbitrary: self) (simp_all add: mutate_other_eps)

lemma foldl_bench_mutate_eps:
  "\<forall>m\<in>set ms. target m \<noteq> Eps \<Longrightarrow> bench_eps (foldl bench_mutate self ms) = bench_eps self"
  by (induction ms arbitrary: self) (simp_all add: bench_mutate_other_eps)

lemma mutate_dom: "dom (hyperparameters (mutate self m)) = dom (hyperparameters self)"
  by (cases m) auto

lemma bench_mutate_dom:
  "dom (bench_hyperparameters (bench_mutate self m)) = dom (bench_hyperparameters self)"
  by (cases m) auto

lemma foldl_mutate_dom:
  "dom (hyperparameters (foldl mutate self ms)) = dom (hyperparameters self)"
  by (induction ms arbitrary: self) (simp_all add: mutate_dom)

lemma foldl_bench_mutate_dom:
  "dom (bench_hyperparameters (foldl bench_mutate self ms)) = dom (bench_hyperparameters self)"
  by (induction ms arbitrary: self) (simp_all add: bench_mutate_dom)

lemma fixed_kernel_param_excluded:
  "hyperparameters self p = Some h \<Longrightarrow> get_bounds h = Fixed \<Longrightarrow> p \<noteq> ''eps'' \<Longrightarrow>
     get_optim_params self p = None"
  by (simp add: get_optim_params_def Let_def)

lemma bench_fixed_kernel_param_excluded:
  "bench_hyperparameters self p = Some h \<Longrightarrow> fixed h \<Longrightarrow> p \<noteq> ''eps'' \<Longrightarrow>
     bench_get_optim_params self p = None"
  by (simp add: bench_get_optim_params_def Let_def)

text \<open>
  Claim C10.  Whatever mutations went before, every hyperparameter in the mapping that
  \<open>get_optim_params\<close> returns is not fixed, for the engine and for the benchmark.  A
  kernel hyperparameter that is marked fixed is no key of the mapping, however many
  mutations of other hyperparameters went before (its name must not be \<open>"eps"\<close>, the key
  under which the noise is returned); and when the noise \<open>eps\<close> is marked fixed, \<open>"eps"\<close>
  is no key of the mapping after any mutations of other hyperparameters (unless the
  kernel has a hyperparameter of that name itself).
\<close>

theorem fixed_never_in_optim_params:
  "(\<forall>q h. get_optim_params (foldl mutate self ms) q = Some h \<longrightarrow> get_bounds h \<noteq> Fixed)
   \<and> (\<forall>q h. bench_get_optim_params (foldl bench_mutate bself ms) q = Some h \<longrightarrow> \<not> fixed h)
   \<and> ((\<forall>m\<in>set ms. target m \<noteq> KernelParam p) \<and> p \<noteq> ''eps'' \<longrightarrow>
        (\<forall>h. hyperparameters self p = Some h \<and> get_bounds h = Fixed \<longrightarrow>
           p \<notin> dom (get_optim_params (foldl mutate self ms)))
        \<and> (\<forall>h. bench_hyperparameters bself p = Some h \<and> fixed h \<longrightarrow>
           p \<notin> dom (bench_get_optim_params (foldl bench_mutate bself ms))))
   \<and> ((\<forall>m\<in>set ms. target m \<noteq> Eps) \<longrightarrow>
        (get_bounds (eps self) = Fixed \<and> ''eps'' \<notin> dom (hyperparameters self) \<longrightarrow>
           ''eps'' \<notin> dom (get_optim_params (foldl mutate self ms)))
        \<and> (fixed (bench_eps bself) \<and> ''eps'' \<notin> dom (bench_hyperparameters bself) \<longrightarrow>
           ''eps'' \<notin> dom (bench_get_optim_params (foldl bench_mutate bself ms))))"
proof (intro conjI impI allI)
  fix q h
  assume "get_optim_params (foldl mutate self ms) q = Some h"
  then show "get_bounds h \<noteq> Fixed" by (rule get_optim_params_unfixed)
next
  fix q h
  assume "bench_get_optim_params (foldl bench_mutate bself ms) q = Some h"
  then show "\<not> fixed h" by (rule bench_get_optim_params_unfixed)
next
  fix h
  assume a: "(\<forall>m\<in>set ms. target m \<noteq> KernelParam p) \<and> p \<noteq> ''eps''"
    and h: "hyperparameters self p = Some h \<and> get_bounds h = Fixed"
  from a h have "hyperparameters (foldl mutate self ms) p = Some h"
    by (simp add: foldl_mutate_kernel_param)
  from fixed_kernel_param_excluded[OF this] a h
  show "p \<notin> dom (get_optim_params (foldl mutate self ms))" by (simp add: domIff)
next
  fix h
  assume a: "(\<forall>m\<in>set ms. target m \<noteq> KernelParam p) \<and> p \<noteq> ''eps''"
    and h: "bench_hyperparameters bself p = Some h \<and> fixed h"
  from a h have "bench_hyperparameters (foldl bench_mutate bself ms) p = Some h"
    by (simp add: foldl_bench_mutate_kernel_param)
  from bench_fixed_kernel_param_excluded[OF this] a h
  show "p \<notin> dom (bench_get_optim_params (foldl bench_mutate bself ms))" by (simp add: domIff)
next
  assume a: "\<forall>m\<in>set ms. target m \<noteq> Eps"
    and f: "get_bounds (eps self) = Fixed \<and> ''eps'' \<notin> dom (hyperparameters self)"
  from a f have "get_bounds (eps (foldl mutate self ms)) = Fixed"
    by (simp add: foldl_mutate_eps)
  moreover from f have "hyperparameters (foldl mutate self ms) ''eps'' = None"
    using foldl_mutate_dom[of self ms] by (metis domIff)
  ultimately show "''eps'' \<notin> dom (get_optim_params (foldl mutate self ms))"
    by (simp add: get_optim_params_def Let_def domIff)
next
  assume a: "\<forall>m\<in>set ms. target m \<noteq> Eps"
    and f: "fixed (bench_eps bself) \<and> ''eps'' \<notin> dom (bench_hyperparameters bself)"
  from a f have "fixed (bench_eps (foldl bench_mutate bself ms))"
    by (simp add: foldl_bench_mutate_eps)
  moreover from f have "bench_hyperparameters (foldl bench_mutate bself ms) ''eps'' = None"
    using foldl_bench_mutate_dom[of bself ms] by (metis domIff)
  ultimately show "''eps'' \<notin> dom (bench_get_optim_params (foldl bench_mutate bself ms))"
    by (simp add: bench_get_optim_params_def Let_def domIff)
qed

theorem fixed_never_in_optim_params_witness:
  "list_all (\<lambda>m. target m \<noteq> KernelParam ''nu'')
     [SetKernelParam ''length_scale'' \<lparr>val = 3, bounds = Interval 1 10\<rparr>,
      SetSigmaSq 0 \<lparr>val = 2, bounds = Fixed\<rparr>]
   \<and> ''nu'' \<noteq> ''eps''
   \<and> hyperparameters example_engine ''nu'' = Some \<lparr>val = 1 / 2, bounds = Fixed\<rparr>
   \<and> get_bounds \<lparr>val = 1 / 2, bounds = Fixed\<rparr> = Fixed
   \<and> ''nu'' \<notin> dom (get_optim_params (foldl mutate example_engine
         [SetKernelParam ''length_scale'' \<lparr>val = 3, bounds = Interval 1 10\<rparr>,
          SetSigmaSq 0 \<lparr>val = 2, bounds = Fixed\<rparr>]))
   \<and> get_optim_params example_engine ''length_scale'' = Some \<lparr>val = 7, bounds = Interval 1 10\<rparr>
   \<and> get_bounds \<lparr>val = 7, bounds = Interval 1 10\<rparr> \<noteq> Fixed"
proof -
  have h1: "\<forall>m\<in>set [SetKernelParam ''length_scale'' \<lparr>val = 3, bounds = Interval 1 10\<rparr>,
                SetSigmaSq 0 \<lparr>val = 2, bounds = Fixed\<rparr>]. target m \<noteq> KernelParam ''nu''"
    by simp
  have h2: "hyperparameters example_engine ''nu'' = Some \<lparr>val = 1 / 2, bounds = Fixed\<rparr>"
    by (simp add: example_engine_def example_hyperparameters_def)
  have h3: "get_bounds \<lparr>val = 1 / 2, bounds = Fixed\<rparr> = Fixed"
    by (simp add: get_bounds_def)
  have h4: "get_optim_params example_engine ''length_scale'' = Some \<lparr>val = 7, bounds = Interval 1 10\<rparr>"
    by (simp add: get_optim_params_def example_engine_def example_hyperparameters_def get_bounds_def)
  from fixed_never_in_optim_params[of example_engine
      "[SetKernelParam ''length_scale'' \<lparr>val = 3, bounds = Interval 1 10\<rparr>,
        SetSigmaSq 0 \<lparr>val = 2, bounds = Fixed\<rparr>]" example_benchmark "''nu''"] h1 h2 h3
  have "''nu'' \<notin> dom (get_optim_params (foldl mutate example_engine
         [SetKernelParam ''length_scale'' \<lparr>val = 3, bounds = Interval 1 10\<rparr>,
          SetSigmaSq 0 \<lparr>val = 2, bounds = Fixed\<rparr>]))"
    by simp
  moreover from fixed_never_in_optim_params[of example_engine "[]" example_benchmark "''nu''"] h4
  have "get_bounds \<lparr>val = 7, bounds = Interval 1 10\<rparr> \<noteq> Fixed"
    by simp
  ultimately show ?thesis using h2 h3 h4 by simp
qed

subsection \<open>The scale estimate\<close>

lemma take_indices_error: "take_indices a idx = Inl e \<Longrightarrow> e = IndexError"
proof -
  assume "take_indices a idx = Inl e"
  from collect_map_Inl[OF this[unfolded take_indices_def]]
  show ?thesis by (auto simp: index_at_def Let_def split: if_splits)
qed

lemma take_indices_length: "take_indices a idx = Inr y \<Longrightarrow> length y = length idx"
  unfolding take_indices_def by (drule collect_map_Inr) simp

lemma sigma_sq_term_sound:
  assumes c: "solve_contract slv" and K: "is_tensor3 b k k K" and nn: "is_mat b k nn_indices"
    and k: "0 < k" and j: "j < b"
  shows "(case sigma_sq_term slv self k K target_col nn_indices j of
            Inl e \<Rightarrow> e = IndexError \<or> e = LinAlgError
          | Inr t \<Rightarrow> \<exists>y x. take_indices target_col (nn_indices ! j) = Inr y
                \<and> mat_vec (add_nugget self k (K ! j)) x = y \<and> t = dot y x)"
proof (cases "take_indices target_col (nn_indices ! j)")
  case (Inl e)
  with take_indices_error[OF Inl] show ?thesis by (simp add: sigma_sq_term_def)
next
  case (Inr y)
  have ly: "length y = k" using take_indices_length[OF Inr] is_mat_nth[OF nn j] by simp
  have Kj: "is_mat k k (K ! j)" and lK: "j < length K"
    using is_tensor3_nth[OF K j] K j by (auto simp: is_tensor3_def)
  show ?thesis
  proof (cases "solve_vec slv (add_nugget self k (K ! j)) y")
    case None
    with Inr Kj lK show ?thesis by (simp add: sigma_sq_term_def)
  next
    case (Some x)
    from solve_vec_sound[OF c Some] ly k have "mat_vec (add_nugget self k (K ! j)) x = y" by simp
    with Some Inr Kj lK show ?thesis by (auto simp: sigma_sq_term_def)
  qed
qed

lemma get_sigma_sq_sound:
  assumes c: "solve_contract slv" and K: "is_tensor3 b k k K" and nn: "is_mat b k nn_indices"
    and k: "0 < k" and b: "0 < b"
  shows "(case get_sigma_sq slv self K target_col nn_indices of
            Inl e \<Rightarrow> e = IndexError \<or> e = LinAlgError
          | Inr ts \<Rightarrow> length ts = b \<and>
              (\<forall>j<b. \<exists>y x. take_indices target_col (nn_indices ! j) = Inr y
                \<and> mat_vec (add_nugget self k (K ! j)) x = y \<and> ts ! j = dot y x))"
proof -
  let ?f = "sigma_sq_term slv self k K target_col nn_indices"
  have g: "get_sigma_sq slv self K target_col nn_indices = collect (map ?f [0..<b])"
    using shape2_is_mat[OF nn b] by (simp add: get_sigma_sq_def)
  show ?thesis
  proof (cases "collect (map ?f [0..<b])")
    case (Inl e)
    from collect_map_Inl[OF Inl] obtain j where j: "j < b" and fj: "?f j = Inl e" by auto
    from sigma_sq_term_sound[OF c K nn k j, where self=self and target_col=target_col] fj
    have "e = IndexError \<or> e = LinAlgError" by simp
    with Inl g show ?thesis by simp
  next
    case (Inr ts)
    from collect_map_Inr[OF Inr] have l: "length ts = b" and ts: "\<forall>j<b. ?f j = Inr (ts ! j)"
      by auto
    have "\<exists>y x. take_indices target_col (nn_indices ! j) = Inr y
                \<and> mat_vec (add_nugget self k (K ! j)) x = y \<and> ts ! j = dot y x" if j: "j < b" for j
      using sigma_sq_term_sound[OF c K nn k j, where self=self and target_col=target_col] ts j by simp
    with l Inr g show ?thesis by simp
  qed
qed

lemma sigma_sq_term_eps:
  "eps s1 = eps s2 \<Longrightarrow> sigma_sq_term slv s1 n K tc nn = sigma_sq_term slv s2 n K tc nn"
proof (rule ext)
  fix j
  assume "eps s1 = eps s2"
  then have "add_nugget s1 n (K ! j) = add_nugget s2 n (K ! j)" by (simp add: add_nugget_def)
  then show "sigma_sq_term slv s1 n K tc nn j = sigma_sq_term slv s2 n K tc nn j"
    by (simp add: sigma_sq_term_def split: sum.splits)
qed

lemma get_sigma_sq_eps:
  "eps s1 = eps s2 \<Longrightarrow> get_sigma_sq slv s1 K tc nn = get_sigma_sq slv s2 K tc nn"
  by (cases "shape2 nn") (simp add: get_sigma_sq_def sigma_sq_term_eps[of s1 s2])

lemma sigma_sq_step_Inr:
  assumes "sigma_sq_step slv K nn_indices targets self i = Inr self'"
  shows "\<exists>ts. get_sigma_sq slv self K (col i targets) nn_indices = Inr ts
           \<and> i < length (sigma_sq self)
           \<and> self' = self\<lparr>sigma_sq := (sigma_sq self)
                 [i := set_val (sum_list ts / real (ncols nn_indices * length nn_indices))
                         (sigma_sq self ! i)]\<rparr>"
  using assms
  by (auto simp: sigma_sq_step_def shape2_def split: if_splits sum.splits)

lemma sigma_sq_loop_invariant:
  assumes "sigma_sq_loop (sigma_sq_step slv K nn_indices targets) self idxs = Inr self'"
    and "distinct idxs"
  shows "eps self' = eps self \<and> kernel self' = kernel self
       \<and> hyperparameters self' = hyperparameters self
       \<and> length (sigma_sq self') = length (sigma_sq self)
       \<and> (\<forall>i. i \<notin> set idxs \<longrightarrow> sigma_sq self' ! i = sigma_sq self ! i)
       \<and> (\<forall>i\<in>set idxs. \<exists>ts. get_sigma_sq slv self K (col i targets) nn_indices = Inr ts
              \<and> sigma_sq self' ! i =
                  set_val (sum_list ts / real (ncols nn_indices * length nn_indices))
                    (sigma_sq self ! i))"
  using assms
proof (induction idxs arbitrary: self)
  case Nil
  then show ?case by simp
next
  case (Cons a rest)
  from Cons.prems obtain s1 where s1: "sigma_sq_step slv K nn_indices targets self a = Inr s1"
    and loop: "sigma_sq_loop (sigma_sq_step slv K nn_indices targets) s1 rest = Inr self'"
    by (auto split: sum.splits)
  from sigma_sq_step_Inr[OF s1] obtain ts where
    ts: "get_sigma_sq slv self K (col a targets) nn_indices = Inr ts"
    and a: "a < length (sigma_sq self)"
    and s1eq: "s1 = self\<lparr>sigma_sq := (sigma_sq self)
                 [a := set_val (sum_list ts / real (ncols nn_indices * length nn_indices))
                         (sigma_sq self ! a)]\<rparr>"
    by blast
  from Cons.prems have d: "distinct rest" and an: "a \<notin> set rest" by auto
  note IH = Cons.IH[OF loop d]
  have e1: "eps s1 = eps self" "kernel s1 = kernel self" "hyperparameters s1 = hyperparameters self"
    "length (sigma_sq s1) = length (sigma_sq self)"
    using s1eq by auto
  have other: "sigma_sq s1 ! i = sigma_sq self ! i" if "i \<noteq> a" for i
    using s1eq that by auto
  have ata: "sigma_sq s1 ! a = set_val (sum_list ts / real (ncols nn_indices * length nn_indices))
                         (sigma_sq self ! a)"
    using s1eq a by auto
  show ?case
  proof (intro conjI allI impI ballI)
    show "eps self' = eps self" "kernel self' = kernel self"
      "hyperparameters self' = hyperparameters self"
      "length (sigma_sq self') = length (sigma_sq self)"
      using IH e1 by auto
  next
    fix i assume "i \<notin> set (a # rest)"
    then show "sigma_sq self' ! i = sigma_sq self ! i" using IH other by auto
  next
    fix i assume i: "i \<in> set (a # rest)"
    show "\<exists>ts. get_sigma_sq slv self K (col i targets) nn_indices = Inr ts
              \<and> sigma_sq self' ! i =
                  set_val (sum_list ts / real (ncols nn_indices * length nn_indices))
                    (sigma_sq self ! i)"
    proof (cases "i = a")
      case True
      with IH an ata ts show ?thesis by auto
    next
      case False
      with i have ir: "i \<in> set rest" by simp
      with IH obtain ts' where "get_sigma_sq slv s1 K (col i targets) nn_indices = Inr ts'"
        and "sigma_sq self' ! i =
                  set_val (sum_list ts' / real (ncols nn_indices * length nn_indices))
                    (sigma_sq s1 ! i)"
        by blast
      with get_sigma_sq_eps[OF e1(1)] other[OF False] show ?thesis by auto
    qed
  qed
qed

lemma sigma_sq_step_error:
  assumes c: "solve_contract slv" and K: "is_tensor3 b k k K" and nn: "is_mat b k nn_indices"
    and k: "0 < k" and b: "0 < b"
    and e: "sigma_sq_step slv K nn_indices targets self i = Inl e"
  shows "e = IndexError \<or> e = LinAlgError"
proof -
  have sh: "shape2 nn_indices = (b, k)" using shape2_is_mat[OF nn b] .
  from get_sigma_sq_sound[OF c K nn k b, where self=self and target_col="col i targets"] e sh k b show ?thesis
    by (auto simp: sigma_sq_step_def split: if_splits sum.splits)
qed

lemma sigma_sq_loop_error:
  assumes c: "solve_contract slv" and K: "is_tensor3 b k k K" and nn: "is_mat b k nn_indices"
    and k: "0 < k" and b: "0 < b"
  shows "sigma_sq_loop (sigma_sq_step slv K nn_indices targets) self idxs = Inl e \<Longrightarrow>
     e = IndexError \<or> e = LinAlgError"
proof (induction idxs arbitrary: self)
  case Nil
  then show ?case by simp
next
  case (Cons a rest)
  show ?case
  proof (cases "sigma_sq_step slv K nn_indices targets self a")
    case (Inl e')
    with Cons.prems have "e' = e" by simp
    with sigma_sq_step_error[OF c K nn k b Inl] show ?thesis by simp
  next
    case (Inr s1)
    with Cons.prems have "sigma_sq_loop (sigma_sq_step slv K nn_indices targets) s1 rest = Inl e"
      by simp
    from Cons.IH[OF this] show ?thesis .
  qed
qed

text \<open>
  What the call leaves in the engine.  With a solver that answers \<open>A X = B\<close>, on arrays
  of the documented shapes \<open>sigma_sq_optim\<close> either raises \<open>IndexError\<close> or
  \<open>LinAlgError\<close>, or leaves an engine in which the value of \<open>sigma_sq[i]\<close>, for every
  response dimension \<open>i\<close>, is the sum over the neighbourhoods \<open>j\<close> of \<open>y_j @ x_j\<close>, where
  \<open>y_j\<close> holds the targets of the neighbours and \<open>(K_j + eps I) x_j = y_j\<close>, divided by
  \<open>nn_count * batch_size\<close>; the bounds of the scale parameters, the other scale
  parameters and the noise stay as they were.
\<close>

lemma sigma_sq_optim_stores:
  assumes c: "solve_contract slv" and K: "is_tensor3 b k k K" and nn: "is_mat b k nn_indices"
    and T: "is_mat n rc targets" and k: "0 < k" and b: "0 < b" and n: "0 < n"
  shows "(case sigma_sq_optim slv self K nn_indices targets of
            Inl e \<Rightarrow> e = IndexError \<or> e = LinAlgError
          | Inr (ret, self') \<Rightarrow>
              eps self' = eps self \<and> length (sigma_sq self') = length (sigma_sq self)
              \<and> (\<forall>i<rc. \<exists>ts. length ts = b
                    \<and> (\<forall>j<b. \<exists>y x. take_indices (col i targets) (nn_indices ! j) = Inr y
                           \<and> mat_vec (add_nugget self k (K ! j)) x = y \<and> ts ! j = dot y x)
                    \<and> val (sigma_sq self' ! i) = sum_list ts / real (k * b)
                    \<and> bounds (sigma_sq self' ! i) = bounds (sigma_sq self ! i))
              \<and> (\<forall>i. rc \<le> i \<longrightarrow> sigma_sq self' ! i = sigma_sq self ! i))"
proof -
  have sn: "shape2 nn_indices = (b, k)" using shape2_is_mat[OF nn b] .
  have st: "shape2 targets = (n, rc)" using shape2_is_mat[OF T n] .
  let ?loop = "sigma_sq_loop (sigma_sq_step slv K nn_indices targets) self [0..<rc]"
  have opt: "sigma_sq_optim slv self K nn_indices targets =
      (case ?loop of Inl e \<Rightarrow> Inl e | Inr self' \<Rightarrow> Inr (None, self'))"
    using sn st nn T by (simp add: sigma_sq_optim_def)
  show ?thesis
  proof (cases ?loop)
    case (Inl e)
    from sigma_sq_loop_error[OF c K nn k b Inl] Inl opt show ?thesis by simp
  next
    case (Inr self')
    note inv = sigma_sq_loop_invariant[OF Inr distinct_upt]
    have kb: "ncols nn_indices * length nn_indices = k * b" using sn by (simp add: shape2_def)
    have "\<exists>ts. length ts = b
                    \<and> (\<forall>j<b. \<exists>y x. take_indices (col i targets) (nn_indices ! j) = Inr y
                           \<and> mat_vec (add_nugget self k (K ! j)) x = y \<and> ts ! j = dot y x)
                    \<and> val (sigma_sq self' ! i) = sum_list ts / real (k * b)
                    \<and> bounds (sigma_sq self' ! i) = bounds (sigma_sq self ! i)" if i: "i < rc" for i
    proof -
      have iin: "i \<in> set [0..<rc]" using i by simp
      from inv have "\<forall>i\<in>set [0..<rc]. \<exists>ts.
          get_sigma_sq slv self K (col i targets) nn_indices = Inr ts
          \<and> sigma_sq self' ! i =
                  set_val (sum_list ts / real (ncols nn_indices * length nn_indices))
                    (sigma_sq self ! i)" by blast
      with iin obtain ts where g: "get_sigma_sq slv self K (col i targets) nn_indices = Inr ts"
        and s: "sigma_sq self' ! i = set_val (sum_list ts / real (k * b)) (sigma_sq self ! i)"
        unfolding kb by blast
      from get_sigma_sq_sound[OF c K nn k b, where self=self and target_col="col i targets"] g
      have "length ts = b \<and> (\<forall>j<b. \<exists>y x. take_indices (col i targets) (nn_indices ! j) = Inr y
                           \<and> mat_vec (add_nugget self k (K ! j)) x = y \<and> ts ! j = dot y x)"
        by simp
      with s show ?thesis by (auto simp: set_val_def)
    qed
    moreover have "\<forall>i. rc \<le> i \<longrightarrow> sigma_sq self' ! i = sigma_sq self ! i"
      using inv by auto
    ultimately show ?thesis using inv Inr opt by simp
  qed
qed

text \<open>
  Claim C5.  For one neighbourhood with the identity as kernel matrix, noise \<open>1e-5\<close> and
  the targets \<open>2\<close>, \<open>4\<close> and \<open>6\<close>, \<open>sigma_sq_optim\<close> sets the value of \<open>sigma_sq[0]\<close> to
  the estimate \<open>(2 * 2 + 4 * 4 + 6 * 6) / (1 + 1e-5) / 3\<close>, the sum over the neighbourhoods
  of \<open>y_j @ solve(K_j + eps I, y_j)\<close> divided by \<open>k * batch_count\<close>, but returns \<open>None\<close>:
  the function has no \<open>return\<close> statement, and the estimate that its docstring has it
  return is in the engine only.
\<close>

theorem sigma_sq_optim_returns_none:
  "map_sum id (\<lambda>(ret, self'). (ret, map val (sigma_sq self')))
     (sigma_sq_optim lin_solve scenario_engine [eye 3] [[0, 1, 2]] [[2], [4], [6]])
     = Inr (None, [(2 * 2 + 4 * 4 + 6 * 6) / (1 + 1 / 100000) / 3])"
  by code_simp

section \<open>Properties of the multivariate engine\<close>

subsection \<open>The call of the single-model engine\<close>

lemma call_compute_solve_four:
  "call_compute_solve slv self [a1, a2, a3, a4] = Inl TypeError"
  by (simp add: call_compute_solve_def)

lemma call_compute_diagonal_variance_three:
  "call_compute_diagonal_variance slv self [a1, a2, a3] = Inl TypeError"
  by (simp add: call_compute_diagonal_variance_def)

lemma regress_body_first:
  "0 < rc \<Longrightarrow> regress_body slv pd cd T ss vm a (b, k, rc) acc (0, m) = Inl TypeError"
  by (cases acc) (simp add: regress_body_def call_compute_solve_four Let_def)

lemma regress_body_error:
  "regress_body slv pd cd T ss vm a (b, k, rc) acc (i, m) = Inl TypeError
   \<or> regress_body slv pd cd T ss vm a (b, k, rc) acc (i, m) = Inl IndexError"
  by (cases acc) (simp add: regress_body_def call_compute_solve_four Let_def)

lemma mm_regress_impl_unsupported:
  "vm \<noteq> None \<Longrightarrow> vm \<noteq> Some ''diagonal'' \<Longrightarrow>
     mm_regress_impl slv ms pd cd T ss vm a = Inl NotImplementedError"
  by (cases "shape3 T") (simp add: mm_regress_impl_def Let_def)

lemma mm_regress_impl_type_error:
  assumes ms: "ms \<noteq> []" and vm: "vm = None \<or> vm = Some ''diagonal''"
    and T: "is_tensor3 b k rc T" and b: "0 < b" and k: "0 < k" and rc: "0 < rc"
  shows "mm_regress_impl slv ms pd cd T ss vm a = Inl TypeError"
proof -
  from ms obtain m rest where m: "ms = m # rest" by (cases ms) auto
  have sh: "shape3 T = (b, k, rc)" using shape3_is_tensor3[OF T b k] .
  have "for_each (regress_body slv pd cd T ss vm a (b, k, rc)) acc (enumerate 0 ms) = Inl TypeError"
    for acc
    unfolding m by (simp add: regress_body_first[OF rc])
  with vm sh show ?thesis by (auto simp: mm_regress_impl_def Let_def)
qed

text \<open>
  Claim C3, as amended.  \<open>MultivariateMuyGPS.regress\<close> raises \<open>TypeError\<close> whenever the
  variance mode is \<open>None\<close> or \<open>"diagonal"\<close>, the engine has a model and the targets have a
  first column: the first round of the loop calls \<open>_compute_solve\<close> with four arguments.
  For every other variance mode it raises \<open>NotImplementedError\<close> before the loop.
\<close>

theorem mm_regress_type_error:
  assumes "models self \<noteq> []" and "is_tensor3 b k rc T" and "0 < b" and "0 < k" and "0 < rc"
  shows "(vm = None \<or> vm = Some ''diagonal'' \<longrightarrow> mm_regress slv self pd cd T vm a = Inl TypeError)
       \<and> (vm \<noteq> None \<and> vm \<noteq> Some ''diagonal'' \<longrightarrow>
            mm_regress slv self pd cd T vm a = Inl NotImplementedError)"
  using assms
  by (auto simp: mm_regress_def mm_regress_impl_unsupported
        intro: mm_regress_impl_type_error)

theorem mm_regress_type_error_witness:
  "models scenario_mm \<noteq> [] \<and> is_tensor3 1 3 1 [[[2], [4], [6 :: real]]]
   \<and> (0::nat) < 1 \<and> (0::nat) < 3
   \<and> mm_regress lin_solve scenario_mm unit_dists [[1/2, 3/10, 1/10]] [[[2], [4], [6]]] None True
       = Inl TypeError
   \<and> mm_regress lin_solve scenario_mm unit_dists [[1/2, 3/10, 1/10]] [[[2], [4], [6]]]
        (Some ''diagonal'') False = Inl TypeError"
proof -
  have h1: "models scenario_mm \<noteq> []" by (simp add: scenario_mm_def)
  have h2: "is_tensor3 1 3 1 [[[2], [4], [6 :: real]]]" by code_simp
  from mm_regress_type_error[OF h1 h2, where slv=lin_solve and pd=unit_dists
         and cd="[[1/2, 3/10, 1/10]]" and vm=None and a=True]
       mm_regress_type_error[OF h1 h2, where slv=lin_solve and pd=unit_dists
         and cd="[[1/2, 3/10, 1/10]]" and vm="Some ''diagonal''" and a=False]
       h1 h2
  show ?thesis by simp
qed

text \<open>
  Claim C3 speaks of every variance mode.  With the mode \<open>"full"\<close> the call raises
  \<open>NotImplementedError\<close>, which is no \<open>TypeError\<close>.
\<close>

theorem mm_regress_unsupported_mode_first:
  "mm_regress lin_solve scenario_mm unit_dists [[1/2, 3/10, 1/10]] [[[2], [4], [6]]]
     (Some ''full'') True = Inl NotImplementedError"
  by (simp add: mm_regress_def mm_regress_impl_unsupported)

subsection \<open>Variances and the order of the models\<close>

text \<open>
  Claim C6.  A call of \<open>MultivariateMuyGPS.regress\<close> in the mode \<open>"diagonal"\<close>, with
  \<open>apply_sigma_sq\<close> true and a trained scale vector, returns no variance, scaled or not:
  it raises \<open>TypeError\<close> at the first call of \<open>_compute_solve\<close>.
\<close>

theorem mm_regress_diagonal_raises:
  "mm_regress lin_solve scenario_mm unit_dists [[1/2, 3/10, 1/10]] [[[2], [4], [6]]]
     (Some ''diagonal'') True = Inl TypeError"
  by (simp add: mm_regress_def scenario_mm_def
        mm_regress_impl_type_error[where b=1 and k=3 and rc=1] is_tensor3_def is_mat_def)

text \<open>
  Claim C8.  With two models and targets of two response dimensions, the call and the
  call with the models and the target columns in the other order both raise
  \<open>TypeError\<close>: there are no output columns to compare.
\<close>

theorem mm_regress_permuted_raises:
  "mm_regress lin_solve two_models_mm unit_dists [[1/2, 3/10, 1/10]]
     [[[2, 1], [4, 3], [6, 5]]] None True = Inl TypeError
   \<and> mm_regress lin_solve (two_models_mm\<lparr>models := rev (models two_models_mm)\<rparr>) unit_dists
       [[1/2, 3/10, 1/10]] (map (map rev) [[[2, 1], [4, 3], [6, 5]]]) None True = Inl TypeError"
  by (simp add: mm_regress_def two_models_mm_def
        mm_regress_impl_type_error[where b=1 and k=3 and rc=2] is_tensor3_def is_mat_def)

subsection \<open>The variance modes\<close>

text \<open>
  Claim C4, as amended.  \<open>MuyGPS.regress\<close> computes the responses first and raises what
  that computation raises.  When the responses are there, it returns them alone in the
  mode \<open>None\<close>, the pair of the responses and the diagonal variance in the mode
  \<open>"diagonal"\<close> (when the variance is computed without an exception), and raises
  \<open>NotImplementedError\<close> in every other mode.  \<open>MultivariateMuyGPS.regress\<close> and its
  helper \<open>_regress\<close> raise \<open>NotImplementedError\<close> in every other mode whatever the other
  arguments are, before any model is used.
\<close>

theorem regress_variance_modes:
  "(\<forall>e. compute_solve slv self K Kcross T = Inl e \<longrightarrow> regress slv self K Kcross T vm = Inl e)
   \<and> (\<forall>R. compute_solve slv self K Kcross T = Inr R \<longrightarrow>
         regress slv self K Kcross T None = Inr (Responses R)
         \<and> (\<forall>V. compute_diagonal_variance slv self K Kcross = Inr V \<longrightarrow>
               regress slv self K Kcross T (Some ''diagonal'') = Inr (WithVariance R V))
         \<and> (vm \<noteq> None \<and> vm \<noteq> Some ''diagonal'' \<longrightarrow>
               regress slv self K Kcross T vm = Inl NotImplementedError))
   \<and> (vm \<noteq> None \<and> vm \<noteq> Some ''diagonal'' \<longrightarrow>
         mm_regress_impl slv ms pd cd T ss vm a = Inl NotImplementedError
         \<and> mm_regress slv mself pd cd T vm a = Inl NotImplementedError)"
  by (auto simp: regress_def mm_regress_def mm_regress_impl_unsupported)

theorem regress_variance_modes_witness:
  "compute_solve lin_solve scenario_engine [eye 3] [[1/2, 3/10, 1/10]] [[[2], [4], [6]]]
     = Inr [[280000 / 100001]]
   \<and> compute_diagonal_variance lin_solve scenario_engine [eye 3] [[1/2, 3/10, 1/10]]
     = Inr [65001 / 100001]
   \<and> regress lin_solve scenario_engine [eye 3] [[1/2, 3/10, 1/10]] [[[2], [4], [6]]] None
     = Inr (Responses [[280000 / 100001]])
   \<and> regress lin_solve scenario_engine [eye 3] [[1/2, 3/10, 1/10]] [[[2], [4], [6]]]
       (Some ''diagonal'') = Inr (WithVariance [[280000 / 100001]] [65001 / 100001])
   \<and> Some ''full'' \<noteq> None \<and> Some ''full'' \<noteq> Some ''diagonal''
   \<and> regress lin_solve scenario_engine [eye 3] [[1/2, 3/10, 1/10]] [[[2], [4], [6]]]
       (Some ''full'') = Inl NotImplementedError
   \<and> mm_regress lin_solve scenario_mm unit_dists [[1/2, 3/10, 1/10]] [[[2], [4], [6]]]
       (Some ''full'') True = Inl NotImplementedError"
proof -
  have s: "compute_solve lin_solve scenario_engine [eye 3] [[1/2, 3/10, 1/10]] [[[2], [4], [6]]]
     = Inr [[280000 / 100001]]" by code_simp
  have v: "compute_diagonal_variance lin_solve scenario_engine [eye 3] [[1/2, 3/10, 1/10]]
     = Inr [65001 / 100001]" by code_simp
  from regress_variance_modes[of lin_solve scenario_engine "[eye 3]" "[[1/2, 3/10, 1/10]]"
         "[[[2], [4], [6]]]" "Some ''full''" "[]" unit_dists "[[1/2, 3/10, 1/10]]" "mm_sigma_sq scenario_mm" True
         scenario_mm] s v
  show ?thesis by simp
qed

text \<open>
  Claim C4 has the exception for an unknown mode raised before anything is computed.
  In \<open>MuyGPS.regress\<close> the solve comes first: with two neighbours at distance 0 and no
  noise the system is singular, and the call in the mode \<open>"full"\<close> raises
  \<open>LinAlgError\<close>.
\<close>

theorem regress_solves_before_mode_check:
  "regress lin_solve noiseless_engine [[[1, 1], [1, 1]]] [[1, 1]] [[[1], [2]]] (Some ''full'')
     = Inl LinAlgError"
  by code_simp

subsection \<open>Regression from indices\<close>

lemma mm_regress_kind:
  assumes "mm_regress slv self pd cd T vm a = Inr r"
  shows "(vm = None \<longrightarrow> (\<exists>R. r = Responses R)) \<and> (vm \<noteq> None \<longrightarrow> (\<exists>R V. r = WithVariance R V))"
  using assms
  by (cases "shape3 T")
     (auto simp: mm_regress_def mm_regress_impl_def Let_def split: if_splits sum.splits)

text \<open>
  Claim C7.  The responses and variances that \<open>regress_from_indices\<close> returns, or the
  exception that it raises, are those of building the tensors with the collaborator that
  the call selects (the numpy variant in MPI mode with \<open>indices_by_rank\<close>, else
  \<open>_make_regress_tensors\<close>) and calling \<open>regress\<close> on them with the same
  \<open>variance_mode\<close> and \<open>apply_sigma_sq\<close>, whether the distances are returned as well or
  not.
\<close>

theorem regress_from_indices_equivalent:
  "map_sum id results_of
     (regress_from_indices slv is_mpi_mode make_regress_tensors_n make_regress_tensors self
        indices nn_indices test train targets variance_mode apply_sigma_sq return_distances
        indices_by_rank)
   = tensors_then_regress slv
       (if is_mpi_mode \<and> indices_by_rank then make_regress_tensors_n else make_regress_tensors)
       self indices nn_indices test train targets variance_mode apply_sigma_sq"
proof -
  let ?fn = "if is_mpi_mode \<and> indices_by_rank then make_regress_tensors_n else make_regress_tensors"
  show ?thesis
  proof (cases "?fn (metric self) indices nn_indices test train targets")
    case (Inl e)
    then show ?thesis by (simp add: regress_from_indices_def tensors_then_regress_def)
  next
    case (Inr tensors)
    obtain crosswise_dists pairwise_dists batch_nn_targets
      where t: "tensors = (crosswise_dists, pairwise_dists, batch_nn_targets)"
      by (cases tensors) auto
    show ?thesis
    proof (cases "mm_regress slv self pairwise_dists crosswise_dists batch_nn_targets variance_mode
                 apply_sigma_sq")
      case (Inl e)
      with Inr t show ?thesis by (simp add: regress_from_indices_def tensors_then_regress_def)
    next
      case r: (Inr r)
      from mm_regress_kind[OF r] Inr t r show ?thesis
        by (auto simp: regress_from_indices_def tensors_then_regress_def)
    qed
  qed
qed

section \<open>Properties of fast regression\<close>

lemma kernel2_shape: "is_mat b k cd \<Longrightarrow> is_mat b k (kernel2 m cd)"
  by (auto simp: is_mat_def kernel2_def list_all_length)

lemma assign_plane_ok:
  assumes X: "is_tensor3 b k rc X" and b: "0 < b" and k: "0 < k" and d: "d < rc"
    and Y: "is_mat b k Y"
  shows "assign_plane X Y d = Inr (map2 (map2 (\<lambda>row v. row[d := v])) X Y)"
  using shape3_is_tensor3[OF X b k] d Y by (simp add: assign_plane_def)

lemma fast_regress_loop:
  assumes cd: "is_mat b k cd" and b: "0 < b" and k: "0 < k" and X: "is_tensor3 b k rc X"
  shows "n + length ms \<le> rc \<Longrightarrow> for_each (fast_regress_body cd) X (enumerate n ms) = Inr X"
proof (induction ms arbitrary: n)
  case Nil
  then show ?case by simp
next
  case (Cons m rest)
  have n: "n < rc" using Cons.prems by simp
  have step: "fast_regress_body cd X (n, m) = Inr X"
    using assign_plane_ok[OF X b k n kernel2_shape[OF cd]] by (simp add: fast_regress_body_def)
  have "Suc n + length rest \<le> rc" using Cons.prems by simp
  from Cons.IH[OF this] step show ?case by simp
qed

lemma zeros3_shape: "is_tensor3 b k rc (zeros3 (b, k, rc))"
  by (simp add: zeros3_def is_tensor3_def is_mat_def list_all_length)

lemma dot_zeros: "dot (replicate n 0) w = 0"
proof -
  have "sum_list (map2 (*) (replicate n (0::real)) w) = 0"
    by (induction n arbitrary: w) (auto simp: zip_Cons1 split: list.splits)
  then show ?thesis by (simp add: dot_def)
qed

lemma col_zeros: "d < rc \<Longrightarrow> col d (replicate k (replicate rc 0)) = replicate k 0"
  by (simp add: col_def)

text \<open>
  With one model for every response dimension at most, and arrays of the documented
  shapes, the loop of \<open>_fast_regress\<close> leaves \<open>Kcross\<close> at zeros, and every response is
  0, whatever the kernels, the distances and the coefficients are.
\<close>

lemma mm_fast_regress_impl_zeros:
  assumes cd: "is_mat b k cd" and C: "is_tensor3 b k rc coeffs" and b: "0 < b" and k: "0 < k"
    and le: "length ms \<le> rc"
  shows "mm_fast_regress_impl ms cd coeffs = Inr (replicate b (replicate rc 0))"
proof -
  have sh: "shape3 coeffs = (b, k, rc)" using shape3_is_tensor3[OF C b k] .
  have run: "for_each (fast_regress_body cd) (zeros3 (b, k, rc)) (enumerate 0 ms)
               = Inr (zeros3 (b, k, rc))"
    using fast_regress_loop[OF cd b k zeros3_shape, of 0 ms rc] le by simp
  have lC: "length coeffs = b" using C by (simp add: is_tensor3_def)
  have nc: "ncols (coeffs ! i) = rc" if "i < b" for i
    using ncols_is_mat[OF is_tensor3_nth[OF C that] k] .
  have "fast_regress_solve (zeros3 (b, k, rc)) coeffs = replicate b (replicate rc 0)"
  proof (rule nth_equalityI)
    show "length (fast_regress_solve (zeros3 (b, k, rc)) coeffs) = length (replicate b (replicate rc (0::real)))"
      using lC by (simp add: fast_regress_solve_def zeros3_def)
  next
    fix i assume "i < length (fast_regress_solve (zeros3 (b, k, rc)) coeffs)"
    then have i: "i < b" using lC by (simp add: fast_regress_solve_def zeros3_def)
    have "fast_regress_solve (zeros3 (b, k, rc)) coeffs ! i
            = map (\<lambda>d. dot (col d (replicate k (replicate rc 0))) (col d (coeffs ! i))) [0..<rc]"
      using i lC nc by (simp add: fast_regress_solve_def zeros3_def)
    also have "\<dots> = replicate rc 0"
      by (auto simp: col_zeros dot_zeros intro: nth_equalityI)
    finally show "fast_regress_solve (zeros3 (b, k, rc)) coeffs ! i = replicate b (replicate rc 0) ! i"
      using i by simp
  qed
  with run sh show ?thesis by (simp add: mm_fast_regress_impl_def)
qed

text \<open>
  Claim C9.  For the test point \<open>(1, 0)\<close> with the neighbours \<open>(1, 0)\<close>, \<open>(0, 2)\<close> and
  \<open>(1, 1)\<close>, two models and the coefficient block of training point 2, the dot products of
  the kernels on the crosswise distances with the columns of the block are \<open>1\<close> and
  \<open>17 / 3\<close>.  Fast regression returns \<open>[[0, 0]]\<close>: \<open>_fast_regress\<close> drops the value of
  \<open>mm.assign\<close>, so the kernel values never reach \<open>Kcross\<close>.
\<close>

theorem fast_regress_returns_zeros:
  "example_crosswise_distances [[1, 0]] [[1, 0], [0, 2], [1, 1]] [0] [[0, 1, 2]] = Inr [[0, 5, 1]]
   \<and> take_indices example_coeffs [2] = Inr [[[1, 2], [3, 4], [5, 6]]]
   \<and> map (\<lambda>d. dot (map (kernel (models two_models_mm ! d)) [0, 5, 1])
                (col d [[1, 2], [3, 4], [5, 6]])) [0, 1] = [1, 17 / 3]
   \<and> mm_fast_regress_from_indices example_crosswise_distances two_models_mm [0] [[0, 1, 2]]
        [[1, 0]] [[1, 0], [0, 2], [1, 1]] [2] example_coeffs = Inr [[0, 0]]"
  by code_simp

end
